theory Spec2Isabelle
  imports Complex_Main "HOL-Library.Sublist"
begin

section \<open>Fire Type Quest: the prediction script of app.py\<close>

text \<open>
  The repository is one Streamlit script, \<^verbatim>\<open>app.py\<close>. Streamlit runs the script from
  top to bottom on every interaction; what survives from one run to the next is
  \<^verbatim>\<open>st.session_state\<close>. The embedding therefore is a function from the session state, the
  widget values and the pressed button to the new session state, the elements shown, and
  the way the run ended.

  Conventions of the embedding:
  \<^item> Python floats are \<open>real\<close>. The script only compares the slider values with integer
    bounds, takes a maximum and tests for zero; the sliders yield finite values, so no NaN
    or rounding is involved in what is modelled.
  \<^item> A Python \<^verbatim>\<open>str\<close> is a \<open>string\<close> holding its UTF-8 bytes: the literals of the source
    that contain emoji or an en dash are spelled out byte by byte. Equality, concatenation
    and containment of strings are the same on code points and on UTF-8 bytes.
  \<^item> An exception is a value \<open>Exn kind text\<close>, where \<open>text\<close> is what \<^verbatim>\<open>str(e)\<close> returns.
  \<^item> The pickled scaler and classifier are opaque: they are parameters of the script, each
    method a function that returns a value or raises.
\<close>

subsection \<open>Exceptions\<close>

text \<open>
  The exceptions are those below \<^verbatim>\<open>Exception\<close>, which is what the two outer handlers of
  the script catch. The texts carried by the exceptions that the interpreter and
  Streamlit raise themselves (a missing dictionary key, a missing session key, \<^verbatim>\<open>max\<close> or
  \<^verbatim>\<open>pop\<close> on an empty list) stand for the library's wording; no property below reads
  them.
\<close>

datatype exc_kind =
  KeyError | AttributeError | IndexError | ValueError | StreamlitAPIException | OtherException

datatype exn = Exn (kind: exc_kind) (str: string)

subsection \<open>Data\<close>

text \<open>The six widget values of the form (lines 113--120).\<close>

record form_input =
  brightness :: real
  bright_t31 :: real
  frp :: real
  scan :: real
  track :: real
  confidence :: string

text \<open>The \<^verbatim>\<open>value=\<close> arguments of the sliders, and the first option of the select box.\<close>

definition widget_defaults :: form_input where
  "widget_defaults =
     \<lparr>brightness = 300, bright_t31 = 290, frp = 15, scan = 1, track = 1,
      confidence = ''low''\<rparr>"

text \<open>One dictionary \<^verbatim>\<open>{"result": ..., "confidence": ...}\<close> of the history list.\<close>

record history_entry =
  h_result :: string
  h_confidence :: real

text \<open>
  The keys of \<^verbatim>\<open>st.session_state\<close> that the script reads or writes. A key that has not
  been assigned yet is \<open>None\<close>. Whatever else the session holds is the record's \<open>more\<close>
  part.
\<close>

record session_state =
  ss_brightness :: "real option"
  ss_bright_t31 :: "real option"
  ss_frp :: "real option"
  ss_scan :: "real option"
  ss_track :: "real option"
  ss_confidence :: "string option"
  history :: "history_entry list option"

definition fresh_session :: session_state where
  "fresh_session =
     \<lparr>ss_brightness = None, ss_bright_t31 = None, ss_frp = None, ss_scan = None,
      ss_track = None, ss_confidence = None, history = None\<rparr>"

text \<open>
  The two objects loaded with \<^verbatim>\<open>joblib.load\<close> (lines 11--12): \<^verbatim>\<open>scaler.transform\<close>,
  \<^verbatim>\<open>model.predict(...)[0]\<close> and \<^verbatim>\<open>model.predict_proba(...)[0]\<close>. The input matrix has one
  row, which is what the functions take and return. A model without \<^verbatim>\<open>predict_proba\<close>
  is one whose \<open>predict_proba\<close> raises \<open>AttributeError\<close>.

  The fourth field is \<^verbatim>\<open>st.progress\<close> (line 194), which belongs to Streamlit and not to
  the repository. It checks its argument: it returns (\<open>None\<close>), or raises
  \<^verbatim>\<open>StreamlitAPIException\<close> for a value it does not accept, such as a float outside
  [0, 1] or a number that is not a Python float. Which values it accepts is left to the
  environment. The other display calls of the prediction take any text and do not raise.
\<close>

record environment =
  transform :: "real list \<Rightarrow> exn + real list"
  predict :: "real list \<Rightarrow> exn + int"
  predict_proba :: "real list \<Rightarrow> exn + real list"
  st_progress :: "real \<Rightarrow> exn option"

text \<open>The elements the script shows during the prediction (calls on \<^verbatim>\<open>st\<close>).\<close>

datatype event =
    StWarning string
  | StError string
  | DebugRawPrediction int
  | DebugProbabilities "real list"
  | DebugNoPredictProba
  | PredictionBox string
  | ConfidenceText real
  | StProgress real

datatype button = NoButton | PredictPressed | ResetPressed

datatype ending = Finished | Stopped | Rerun | Raised exn

subsection \<open>String literals of the source\<close>

definition warning_sign :: string where
  \<comment> \<open>U+26A0 U+FE0F\<close>
  "warning_sign = [CHR 0xE2, CHR 0x9A, CHR 0xA0, CHR 0xEF, CHR 0xB8, CHR 0x8F]"

definition en_dash :: string where
  \<comment> \<open>U+2013\<close>
  "en_dash = [CHR 0xE2, CHR 0x80, CHR 0x93]"

definition police_light :: string where
  \<comment> \<open>U+1F6A8\<close>
  "police_light = [CHR 0xF0, CHR 0x9F, CHR 0x9A, CHR 0xA8]"

definition fire_emoji :: string where
  \<comment> \<open>U+1F525\<close>
  "fire_emoji = [CHR 0xF0, CHR 0x9F, CHR 0x94, CHR 0xA5]"

definition herb_emoji :: string where
  \<comment> \<open>U+1F33F\<close>
  "herb_emoji = [CHR 0xF0, CHR 0x9F, CHR 0x8C, CHR 0xBF]"

definition factory_emoji :: string where
  \<comment> \<open>U+1F3ED\<close>
  "factory_emoji = [CHR 0xF0, CHR 0x9F, CHR 0x8F, CHR 0xAD]"

definition wave_emoji :: string where
  \<comment> \<open>U+1F30A\<close>
  "wave_emoji = [CHR 0xF0, CHR 0x9F, CHR 0x8C, CHR 0x8A]"

definition question_mark_emoji :: string where
  \<comment> \<open>U+2753\<close>
  "question_mark_emoji = [CHR 0xE2, CHR 0x9D, CHR 0x93]"

definition brightness_warning :: string where
  "brightness_warning = warning_sign @ '' Brightness outside 300'' @ en_dash @ ''450 K!''"

definition bright_t31_warning :: string where
  "bright_t31_warning =
     warning_sign @ '' Brightness T31 outside 290'' @ en_dash @ ''400 K!''"

definition frp_warning :: string where
  "frp_warning = warning_sign @ '' FRP outside 0'' @ en_dash @ ''100 MW!''"

definition scaling_error_prefix :: string where
  "scaling_error_prefix = police_light @ '' Error scaling input data: ''"

definition prediction_error_prefix :: string where
  "prediction_error_prefix = police_light @ '' Error during prediction: ''"

definition vegetation_fire :: string where
  "vegetation_fire = ''Vegetation Fire '' @ herb_emoji @ fire_emoji"

definition static_land_source :: string where
  "static_land_source = ''Static Land Source '' @ factory_emoji @ fire_emoji"

definition offshore_fire :: string where
  "offshore_fire = ''Offshore Fire '' @ wave_emoji @ fire_emoji"

definition unknown_fire_type :: string where
  "unknown_fire_type = ''Unknown Fire Type '' @ question_mark_emoji"

subsection \<open>Session state: initialisation and reset\<close>

text \<open>Lines 71--72.\<close>

definition init_history :: "'a session_state_scheme \<Rightarrow> 'a session_state_scheme" where
  "init_history st = (case history st of None \<Rightarrow> st\<lparr>history := Some []\<rparr> | Some _ \<Rightarrow> st)"

text \<open>Lines 130--135, the assignments of the \<^verbatim>\<open>if reset:\<close> branch.\<close>

definition reset :: "'a session_state_scheme \<Rightarrow> 'a session_state_scheme" where
  "reset st =
     st\<lparr>ss_brightness := Some 300,
        ss_bright_t31 := Some 290,
        ss_frp := Some 15,
        ss_scan := Some 1,
        ss_track := Some 1,
        ss_confidence := Some ''low''\<rparr>"

subsection \<open>Confidence code, validation, feature vector\<close>

text \<open>Line 149: the dictionary; line 150 looks the selected level up in it.\<close>

definition confidence_map :: "string \<rightharpoonup> int" where
  "confidence_map = [''low'' \<mapsto> 0, ''nominal'' \<mapsto> 1, ''high'' \<mapsto> 2]"

text \<open>Lines 153--159: the list \<^verbatim>\<open>warnings\<close> after the three checks.\<close>

definition warnings :: "form_input \<Rightarrow> string list" where
  "warnings inp =
     (if brightness inp < 300 \<or> brightness inp > 450 then [brightness_warning] else []) @
     (if bright_t31 inp < 290 \<or> bright_t31 inp > 400 then [bright_t31_warning] else []) @
     (if frp inp < 0 \<or> frp inp > 100 then [frp_warning] else [])"

text \<open>\<^verbatim>\<open>" ".join(ws)\<close>\<close>

fun join_space :: "string list \<Rightarrow> string" where
  "join_space [] = []"
| "join_space [w] = w"
| "join_space (w # ws) = w @ '' '' @ join_space ws"

text \<open>Lines 160--161.\<close>

definition show_warnings :: "string list \<Rightarrow> event list" where
  "show_warnings ws = (if ws \<noteq> [] then [StWarning (join_space ws)] else [])"

text \<open>
  Line 164: the row of \<^verbatim>\<open>input_array\<close>. numpy stores the integer code in the same
  float array as the five readings.
\<close>

definition input_array :: "form_input \<Rightarrow> int \<Rightarrow> real list" where
  "input_array inp confidence_val =
     [brightness inp, bright_t31 inp, frp inp, scan inp, track inp,
      real_of_int confidence_val]"

subsection \<open>Prediction\<close>

text \<open>Lines 183--188: the dictionary and \<^verbatim>\<open>fire_types.get(prediction, default)\<close>.\<close>

definition fire_types :: "int \<rightharpoonup> string" where
  "fire_types = [0 \<mapsto> vegetation_fire, 2 \<mapsto> static_land_source, 3 \<mapsto> offshore_fire]"

definition fire_types_get :: "int \<Rightarrow> string" where
  "fire_types_get prediction =
     (case fire_types prediction of Some name \<Rightarrow> name | None \<Rightarrow> unknown_fire_type)"

text \<open>
  Python's \<^verbatim>\<open>max\<close> over a sequence: the first element, replaced by each later element that
  is greater; \<open>ValueError\<close> on an empty sequence.
\<close>

definition py_max :: "real list \<Rightarrow> exn + real" where
  "py_max xs =
     (case xs of
        [] \<Rightarrow> Inl (Exn ValueError ''max() arg is an empty sequence'')
      | x # rest \<Rightarrow> Inr (foldl (\<lambda>m y. if y > m then y else m) x rest))"

text \<open>
  Lines 175--181: the inner \<^verbatim>\<open>try\<close>. Only \<open>AttributeError\<close> is caught there; any other
  exception leaves the block. The result is what was shown, and \<^verbatim>\<open>max_proba\<close> or the
  exception.
\<close>

definition proba_block :: "environment \<Rightarrow> real list \<Rightarrow> event list \<times> (exn + real option)" where
  "proba_block env scaled_input =
     (case predict_proba env scaled_input of
        Inl e \<Rightarrow>
          if kind e = AttributeError then ([DebugNoPredictProba], Inr None) else ([], Inl e)
      | Inr prediction_proba \<Rightarrow>
          (case py_max prediction_proba of
             Inl e \<Rightarrow>
               if kind e = AttributeError
               then ([DebugProbabilities prediction_proba, DebugNoPredictProba], Inr None)
               else ([DebugProbabilities prediction_proba], Inl e)
           | Inr m \<Rightarrow> ([DebugProbabilities prediction_proba], Inr (Some m))))"

text \<open>The truth value of \<^verbatim>\<open>max_proba\<close> in \<^verbatim>\<open>if max_proba\<close>: \<^verbatim>\<open>None\<close> and \<^verbatim>\<open>0.0\<close> are false.\<close>

fun truthy :: "real option \<Rightarrow> bool" where
  "truthy None = False"
| "truthy (Some p) = (p \<noteq> 0)"

text \<open>
  Lines 191--194: the prediction box, then under \<^verbatim>\<open>if max_proba\<close> the confidence text and
  the progress bar. The result is what was shown, and the exception if \<^verbatim>\<open>st.progress\<close>
  raised; the bar is shown only when the call returns.
\<close>

definition show_prediction ::
  "environment \<Rightarrow> string \<Rightarrow> real option \<Rightarrow> event list \<times> exn option" where
  "show_prediction env result max_proba =
     (case max_proba of
        Some p \<Rightarrow>
          if truthy max_proba
          then (case st_progress env p of
                  Some e \<Rightarrow> ([PredictionBox result, ConfidenceText p], Some e)
                | None \<Rightarrow> ([PredictionBox result, ConfidenceText p, StProgress p], None))
          else ([PredictionBox result], None)
      | None \<Rightarrow> ([PredictionBox result], None))"

text \<open>Line 197: the dictionary appended, with \<^verbatim>\<open>max_proba if max_proba else 1.0\<close>.\<close>

definition new_entry :: "string \<Rightarrow> real option \<Rightarrow> history_entry" where
  "new_entry result max_proba =
     \<lparr>h_result = result,
      h_confidence = (case max_proba of
                        Some p \<Rightarrow> if truthy max_proba then p else 1
                      | None \<Rightarrow> 1)\<rparr>"

text \<open>
  Lines 197--199 on the list itself: \<^verbatim>\<open>append\<close>, then \<^verbatim>\<open>pop(0)\<close> when the list has more
  than 10 entries. \<^verbatim>\<open>pop(0)\<close> raises \<open>IndexError\<close> on an empty list; the list as mutated so
  far is returned with the exception.
\<close>

definition save_to_history ::
  "history_entry list \<Rightarrow> history_entry \<Rightarrow> history_entry list \<times> exn option" where
  "save_to_history h entry =
     (let h' = h @ [entry]
      in if length h' > 10
         then (case h' of
                 [] \<Rightarrow> (h', Some (Exn IndexError ''pop from empty list''))
               | _ # rest \<Rightarrow> (rest, None))
         else (h', None))"

text \<open>
  Lines 173--199, the body of the outer \<^verbatim>\<open>try\<close>: the new session state, what was shown, and
  the exception if one left the body. An exception from \<^verbatim>\<open>st.progress\<close> leaves the body
  before line 197, so nothing is saved. Reading \<^verbatim>\<open>st.session_state.history\<close> raises
  \<open>AttributeError\<close> when the key is missing. The calls after line 199 (fun fact, quote,
  radar chart) show fixed decoration and touch neither the session state nor the
  prediction; they are left out.
\<close>

definition predict_block ::
  "environment \<Rightarrow> real list \<Rightarrow> 'a session_state_scheme \<Rightarrow>
     'a session_state_scheme \<times> event list \<times> exn option" where
  "predict_block env scaled_input st =
     (case predict env scaled_input of
        Inl e \<Rightarrow> (st, [], Some e)
      | Inr prediction \<Rightarrow>
          (case proba_block env scaled_input of
             (out, Inl e) \<Rightarrow> (st, DebugRawPrediction prediction # out, Some e)
           | (out, Inr max_proba) \<Rightarrow>
               (let result = fire_types_get prediction
                in case show_prediction env result max_proba of
                     (box, Some e) \<Rightarrow> (st, DebugRawPrediction prediction # out @ box, Some e)
                   | (box, None) \<Rightarrow>
                       (let shown = DebugRawPrediction prediction # out @ box
                        in case history st of
                             None \<Rightarrow> (st, shown, Some (Exn AttributeError ''history''))
                           | Some h \<Rightarrow>
                               (case save_to_history h (new_entry result max_proba) of
                                  (h', err) \<Rightarrow> (st\<lparr>history := Some h'\<rparr>, shown, err))))))"

text \<open>
  Lines 147--252, the \<^verbatim>\<open>if submitted:\<close> branch. A level that is not a key of
  \<^verbatim>\<open>confidence_map\<close> raises \<open>KeyError\<close> outside any \<^verbatim>\<open>try\<close>. A failing
  \<^verbatim>\<open>scaler.transform\<close> is reported and the run stopped with \<^verbatim>\<open>st.stop()\<close>. An exception
  from the prediction body is reported and the run goes on to the footer.
\<close>

definition submitted_block ::
  "environment \<Rightarrow> form_input \<Rightarrow> 'a session_state_scheme \<Rightarrow>
     'a session_state_scheme \<times> event list \<times> ending" where
  "submitted_block env inp st =
     (case confidence_map (confidence inp) of
        None \<Rightarrow> (st, [], Raised (Exn KeyError (confidence inp)))
      | Some confidence_val \<Rightarrow>
          (let shown = show_warnings (warnings inp)
           in case transform env (input_array inp confidence_val) of
                Inl e \<Rightarrow> (st, shown @ [StError (scaling_error_prefix @ str e)], Stopped)
              | Inr scaled_input \<Rightarrow>
                  (case predict_block env scaled_input st of
                     (st', out, None) \<Rightarrow> (st', shown @ out, Finished)
                   | (st', out, Some e) \<Rightarrow>
                       (st', shown @ out @ [StError (prediction_error_prefix @ str e)],
                        Finished))))"

text \<open>
  One run of the script: the history key is initialised, then the pressed button is
  served. The reset branch ends in \<^verbatim>\<open>st.experimental_rerun()\<close>.
\<close>

definition script_once ::
  "environment \<Rightarrow> form_input \<Rightarrow> button \<Rightarrow> 'a session_state_scheme \<Rightarrow>
     'a session_state_scheme \<times> event list \<times> ending" where
  "script_once env inp b st =
     (let st1 = init_history st
      in case b of
           ResetPressed \<Rightarrow> (reset st1, [], Rerun)
         | PredictPressed \<Rightarrow> submitted_block env inp st1
         | NoButton \<Rightarrow> (st1, [], Finished))"

text \<open>
  One interaction: a run that asks for a rerun is followed by a run with no button
  pressed, whose page replaces the first one.
\<close>

definition script ::
  "environment \<Rightarrow> form_input \<Rightarrow> button \<Rightarrow> 'a session_state_scheme \<Rightarrow>
     'a session_state_scheme \<times> event list \<times> ending" where
  "script env inp b st =
     (case script_once env inp b st of
        (st', out, Rerun) \<Rightarrow> script_once env inp NoButton st'
      | r \<Rightarrow> r)"

text \<open>A session: interactions served one after the other, starting from a state.\<close>

fun session ::
  "'a session_state_scheme \<Rightarrow> (environment \<times> form_input \<times> button) list \<Rightarrow>
     'a session_state_scheme" where
  "session st [] = st"
| "session st ((env, inp, b) # rest) = session (fst (script env inp b st)) rest"

definition history_list :: "'a session_state_scheme \<Rightarrow> history_entry list" where
  "history_list st = (case history st of None \<Rightarrow> [] | Some h \<Rightarrow> h)"

subsection \<open>Concrete inputs\<close>

text \<open>
  Inputs at which the properties below are evaluated: the submission of the nominal
  scenario, stand-ins for the pickled artifacts together with a progress bar that accepts
  the values in [0, 1], and a full history list.
\<close>

definition example_submission :: form_input where
  "example_submission =
     \<lparr>brightness = 320, bright_t31 = 300, frp = 20, scan = 1, track = 1,
      confidence = ''nominal''\<rparr>"

definition working_artifacts :: environment where
  "working_artifacts =
     \<lparr>transform = (\<lambda>v. Inr v), predict = (\<lambda>v. Inr 0),
      predict_proba = (\<lambda>v. Inr [9 / 10, 1 / 10, 0, 0]),
      st_progress = (\<lambda>p. if 0 \<le> p \<and> p \<le> 1 then None
                           else Some (Exn StreamlitAPIException ''invalid value''))\<rparr>"

definition failing_scaler :: environment where
  "failing_scaler =
     working_artifacts
       \<lparr>transform := (\<lambda>v. Inl (Exn ValueError ''X has 6 features, expected 5''))\<rparr>"

definition no_proba_artifacts :: environment where
  "no_proba_artifacts =
     working_artifacts
       \<lparr>predict_proba := (\<lambda>v. Inl (Exn AttributeError ''no attribute predict_proba''))\<rparr>"

definition zero_proba_artifacts :: environment where
  "zero_proba_artifacts = working_artifacts\<lparr>predict_proba := (\<lambda>v. Inr [0, 0, 0, 0])\<rparr>"

definition over_one_artifacts :: environment where
  "over_one_artifacts = working_artifacts\<lparr>predict_proba := (\<lambda>v. Inr [3 / 2, 1 / 4])\<rparr>"

definition picky_scaler :: environment where
  "picky_scaler =
     working_artifacts
       \<lparr>transform := (\<lambda>v. if v = [320, 300, 20, 1, 1, 1] then Inr v
                           else Inl (Exn ValueError ''unexpected row''))\<rparr>"

definition ten_entries :: "history_entry list" where
  "ten_entries =
     [\<lparr>h_result = ''a'', h_confidence = 1\<rparr>, \<lparr>h_result = ''b'', h_confidence = 1\<rparr>,
      \<lparr>h_result = ''c'', h_confidence = 1\<rparr>, \<lparr>h_result = ''d'', h_confidence = 1\<rparr>,
      \<lparr>h_result = ''e'', h_confidence = 1\<rparr>, \<lparr>h_result = ''f'', h_confidence = 1\<rparr>,
      \<lparr>h_result = ''g'', h_confidence = 1\<rparr>, \<lparr>h_result = ''h'', h_confidence = 1\<rparr>,
      \<lparr>h_result = ''i'', h_confidence = 1\<rparr>, \<lparr>h_result = ''j'', h_confidence = 1\<rparr>]"

section \<open>Properties\<close>

subsection \<open>Helper facts\<close>

lemmas literal_defs =
  warning_sign_def en_dash_def police_light_def fire_emoji_def herb_emoji_def
  factory_emoji_def wave_emoji_def question_mark_emoji_def brightness_warning_def
  bright_t31_warning_def frp_warning_def scaling_error_prefix_def
  prediction_error_prefix_def vegetation_fire_def static_land_source_def
  offshore_fire_def unknown_fire_type_def

lemma confidence_map_eq_Some:
  "confidence_map c = Some n \<longleftrightarrow>
     (c = ''low'' \<and> n = 0) \<or> (c = ''nominal'' \<and> n = 1) \<or> (c = ''high'' \<and> n = 2)"
  by (simp add: confidence_map_def)

lemma save_to_history_eq:
  "save_to_history h e = (if 10 \<le> length h then tl (h @ [e]) else h @ [e], None)"
  by (cases h) (simp_all add: save_to_history_def)

lemma proba_block_no_warning: "StWarning w \<notin> set (fst (proba_block env s))"
  by (simp add: proba_block_def split: sum.splits)

lemma show_prediction_no_warning: "StWarning w \<notin> set (fst (show_prediction env r m))"
  by (simp add: show_prediction_def split: option.splits)

lemma show_prediction_accepted:
  assumes "\<forall>q. mp = Some q \<longrightarrow> q \<noteq> 0 \<longrightarrow> st_progress env q = None"
  shows "show_prediction env r mp =
           (PredictionBox r #
              (case mp of
                 Some q \<Rightarrow> if q \<noteq> 0 then [ConfidenceText q, StProgress q] else []
               | None \<Rightarrow> []),
            None)"
  using assms by (simp add: show_prediction_def split: option.splits)

lemma show_prediction_rejected:
  assumes "q \<noteq> 0" and "st_progress env q = Some e"
  shows "show_prediction env r (Some q) = ([PredictionBox r, ConfidenceText q], Some e)"
  using assms by (simp add: show_prediction_def)

lemma predict_block_no_warning: "StWarning w \<notin> set (fst (snd (predict_block env s st)))"
proof (cases "predict env s")
  case (Inl e)
  then show ?thesis by (simp add: predict_block_def)
next
  case (Inr p)
  obtain out r where pb: "proba_block env s = (out, r)" by (cases "proba_block env s") auto
  have o: "StWarning w \<notin> set out"
    using proba_block_no_warning[of w env s] pb by simp
  show ?thesis
  proof (cases r)
    case (Inl e)
    with Inr pb o show ?thesis by (simp add: predict_block_def)
  next
    case (Inr mp)
    obtain box err where sp: "show_prediction env (fire_types_get p) mp = (box, err)"
      by (cases "show_prediction env (fire_types_get p) mp") auto
    have b: "StWarning w \<notin> set box"
      using show_prediction_no_warning[of w env "fire_types_get p" mp] sp by simp
    from \<open>predict env s = Inr p\<close> pb Inr sp o b show ?thesis
      by (cases err; cases "history st")
         (simp_all add: predict_block_def Let_def save_to_history_eq)
  qed
qed

lemma submitted_block_no_warning:
  assumes "warnings inp = []"
  shows "StWarning w \<notin> set (fst (snd (submitted_block env inp st)))"
proof (cases "confidence_map (confidence inp)")
  case None
  then show ?thesis by (simp add: submitted_block_def)
next
  case (Some cv)
  show ?thesis
  proof (cases "transform env (input_array inp cv)")
    case (Inl e)
    with Some assms show ?thesis by (simp add: submitted_block_def Let_def show_warnings_def)
  next
    case (Inr scaled)
    obtain st' out err where pb: "predict_block env scaled st = (st', out, err)"
      by (cases "predict_block env scaled st") auto
    have "StWarning w \<notin> set out"
      using predict_block_no_warning[of w env scaled st] pb by simp
    with Some Inr assms pb show ?thesis
      by (cases err) (simp_all add: submitted_block_def Let_def show_warnings_def)
  qed
qed

lemma init_history_idem: "init_history (init_history st) = init_history st"
  by (simp add: init_history_def split: option.splits)

lemma history_init_history: "history (init_history st) = Some (history_list st)"
  by (simp add: init_history_def history_list_def split: option.splits)

lemma history_list_init_history: "history_list (init_history st) = history_list st"
  by (simp add: init_history_def history_list_def split: option.splits)

lemma init_history_Some: "history st = Some h \<Longrightarrow> init_history st = st"
  by (simp add: init_history_def)

lemma script_once_init_history:
  "script_once env inp b (init_history st) = script_once env inp b st"
  by (simp add: script_once_def init_history_idem)

lemma script_init_history: "script env inp b (init_history st) = script env inp b st"
  by (simp add: script_def script_once_init_history)

lemma submitted_block_not_Rerun: "submitted_block env inp s \<noteq> (s', out, Rerun)"
  by (simp add: submitted_block_def Let_def split: option.splits sum.splits prod.splits)

lemma script_PredictPressed:
  "script env inp PredictPressed st = submitted_block env inp (init_history st)"
proof (cases "submitted_block env inp (init_history st)")
  case (fields s' out e)
  with submitted_block_not_Rerun[of env inp "init_history st" s' out] have "e \<noteq> Rerun"
    by auto
  with fields show ?thesis
    by (simp add: script_def script_once_def split: ending.splits)
qed

lemma py_max_eq_Max: "xs \<noteq> [] \<Longrightarrow> py_max xs = Inr (Max (set xs))"
proof (cases xs)
  case Nil
  assume "xs \<noteq> []"
  with Nil show ?thesis by simp
next
  case (Cons x rest)
  have f: "(\<lambda>y m. if m < y then y else m) = (max :: real \<Rightarrow> real \<Rightarrow> real)"
    by (auto simp: fun_eq_iff max_def)
  have "foldl (\<lambda>m y. if y > m then y else m) x rest = fold max rest x"
    by (simp add: foldl_conv_fold f)
  also have "\<dots> = Max (set (x # rest))"
    by (rule Max.set_eq_fold[symmetric])
  finally show ?thesis using Cons by (simp add: py_max_def)
qed

lemma save_to_history_last:
  "fst (save_to_history h e) \<noteq> [] \<and> last (fst (save_to_history h e)) = e"
  by (cases h) (simp_all add: save_to_history_eq)

lemma save_to_history_length:
  "length h \<le> 10 \<Longrightarrow> length (fst (save_to_history h e)) \<le> 10"
  by (simp add: save_to_history_eq)

lemma submitted_block_success:
  assumes "confidence_map (confidence inp) = Some cv"
    and "transform env (input_array inp cv) = Inr scaled"
    and "predict env scaled = Inr p"
    and "proba_block env scaled = (out, Inr mp)"
    and "show_prediction env (fire_types_get p) mp = (box, None)"
    and "history st = Some h"
  shows "submitted_block env inp st =
           (st\<lparr>history := Some (fst (save_to_history h (new_entry (fire_types_get p) mp)))\<rparr>,
            show_warnings (warnings inp) @ DebugRawPrediction p # out @ box,
            Finished)"
  using assms
  by (simp add: submitted_block_def predict_block_def Let_def save_to_history_eq)

lemma submitted_block_progress_raises:
  assumes "confidence_map (confidence inp) = Some cv"
    and "transform env (input_array inp cv) = Inr scaled"
    and "predict env scaled = Inr p"
    and "proba_block env scaled = (out, Inr mp)"
    and "show_prediction env (fire_types_get p) mp = (box, Some e)"
  shows "submitted_block env inp st =
           (st,
            show_warnings (warnings inp) @ DebugRawPrediction p # out @ box @
              [StError (prediction_error_prefix @ str e)],
            Finished)"
  using assms
  by (simp add: submitted_block_def predict_block_def Let_def)

lemma script_predict_success:
  assumes "confidence_map (confidence inp) = Some cv"
    and "transform env (input_array inp cv) = Inr scaled"
    and "predict env scaled = Inr p"
    and "proba_block env scaled = (out, Inr mp)"
    and "show_prediction env (fire_types_get p) mp = (box, None)"
  shows "script env inp PredictPressed st =
           ((init_history st)
              \<lparr>history :=
                 Some (fst (save_to_history (history_list st)
                              (new_entry (fire_types_get p) mp)))\<rparr>,
            show_warnings (warnings inp) @ DebugRawPrediction p # out @ box,
            Finished)"
  unfolding script_PredictPressed
  by (rule submitted_block_success[OF assms history_init_history])

lemma script_progress_raises:
  assumes "confidence_map (confidence inp) = Some cv"
    and "transform env (input_array inp cv) = Inr scaled"
    and "predict env scaled = Inr p"
    and "proba_block env scaled = (out, Inr mp)"
    and "show_prediction env (fire_types_get p) mp = (box, Some e)"
  shows "script env inp PredictPressed st =
           (init_history st,
            show_warnings (warnings inp) @ DebugRawPrediction p # out @ box @
              [StError (prediction_error_prefix @ str e)],
            Finished)"
  unfolding script_PredictPressed
  by (rule submitted_block_progress_raises[OF assms])

lemma script_by_transform:
  assumes "confidence_map (confidence inp) = Some cv"
  shows "script env inp PredictPressed st =
           (case transform env (input_array inp cv) of
              Inl e \<Rightarrow>
                (init_history st,
                 show_warnings (warnings inp) @ [StError (scaling_error_prefix @ str e)],
                 Stopped)
            | Inr scaled \<Rightarrow>
                (case predict_block env scaled (init_history st) of
                   (st', out, None) \<Rightarrow> (st', show_warnings (warnings inp) @ out, Finished)
                 | (st', out, Some e) \<Rightarrow>
                     (st',
                      show_warnings (warnings inp) @ out @
                        [StError (prediction_error_prefix @ str e)],
                      Finished)))"
  unfolding script_PredictPressed using assms by (simp add: submitted_block_def Let_def)

lemma predict_block_predict_raises:
  "predict env scaled = Inl e \<Longrightarrow> predict_block env scaled st = (st, [], Some e)"
  by (simp add: predict_block_def)

lemma predict_block_starts_with_prediction:
  assumes "predict env scaled = Inr p"
  shows "\<exists>rest. fst (snd (predict_block env scaled st)) = DebugRawPrediction p # rest"
  using assms
  by (simp add: predict_block_def Let_def split: sum.splits prod.splits option.splits)

lemma history_list_update: "history_list (st\<lparr>history := Some h\<rparr>) = h"
  by (simp add: history_list_def)

lemma predict_block_history_bound:
  assumes "length (history_list st) \<le> 10"
  shows "length (history_list (fst (predict_block env scaled st))) \<le> 10"
proof (cases "history st")
  case None
  with assms show ?thesis
    by (simp add: predict_block_def Let_def split: sum.splits prod.splits option.splits)
next
  case (Some h)
  then have "length h \<le> 10" using assms by (simp add: history_list_def)
  then have "length (tl (h @ [e])) \<le> 10" for e by simp
  with Some assms \<open>length h \<le> 10\<close> show ?thesis
    by (simp add: predict_block_def Let_def save_to_history_eq history_list_update
        split: sum.splits prod.splits option.splits)
qed

lemma submitted_block_history_bound:
  assumes "length (history_list st) \<le> 10"
  shows "length (history_list (fst (submitted_block env inp st))) \<le> 10"
proof (cases "confidence_map (confidence inp)")
  case None
  with assms show ?thesis by (simp add: submitted_block_def)
next
  case (Some cv)
  show ?thesis
  proof (cases "transform env (input_array inp cv)")
    case (Inl e)
    with Some assms show ?thesis by (simp add: submitted_block_def Let_def)
  next
    case (Inr scaled)
    obtain st' out err where pb: "predict_block env scaled st = (st', out, err)"
      by (cases "predict_block env scaled st") auto
    have "length (history_list st') \<le> 10"
      using predict_block_history_bound[OF assms, of env scaled] pb by simp
    with Some Inr pb show ?thesis
      by (cases err) (simp_all add: submitted_block_def Let_def)
  qed
qed

lemma history_list_reset: "history_list (reset st) = history_list st"
  by (simp add: reset_def history_list_def)

lemma init_history_reset: "init_history (reset st) = reset (init_history st)"
  by (simp add: init_history_def reset_def split: option.splits)

lemma script_ResetPressed:
  "script env inp ResetPressed st = (reset (init_history st), [], Finished)"
  by (simp add: script_def script_once_def init_history_reset init_history_idem)

lemma script_NoButton: "script env inp NoButton st = (init_history st, [], Finished)"
  by (simp add: script_def script_once_def)

lemma script_history_bound:
  assumes "length (history_list st) \<le> 10"
  shows "length (history_list (fst (script env inp b st))) \<le> 10"
proof (cases b)
  case NoButton
  with assms show ?thesis by (simp add: script_NoButton history_list_init_history)
next
  case PredictPressed
  have "length (history_list (init_history st)) \<le> 10"
    using assms by (simp add: history_list_init_history)
  then show ?thesis
    unfolding PredictPressed script_PredictPressed by (rule submitted_block_history_bound)
next
  case ResetPressed
  with assms show ?thesis
    by (simp add: script_ResetPressed history_list_reset history_list_init_history)
qed

lemma session_history_bound:
  "length (history_list st) \<le> 10 \<Longrightarrow> length (history_list (session st reqs)) \<le> 10"
proof (induction reqs arbitrary: st)
  case Nil
  then show ?case by simp
next
  case (Cons r reqs)
  obtain env inp b where r: "r = (env, inp, b)" by (cases r) auto
  have "length (history_list (fst (script env inp b st))) \<le> 10"
    using Cons.prems by (rule script_history_bound)
  then show ?case unfolding r by (simp add: Cons.IH)
qed

lemma predict_block_cong:
  assumes "predict env = predict env'" and "predict_proba env = predict_proba env'"
    and "st_progress env = st_progress env'"
  shows "predict_block env scaled st = predict_block env' scaled st"
proof -
  have "proba_block env scaled = proba_block env' scaled"
    by (simp add: proba_block_def assms)
  moreover have "show_prediction env r mp = show_prediction env' r mp" for r mp
    by (simp add: show_prediction_def assms split: option.split)
  ultimately show ?thesis
    by (simp add: predict_block_def assms split: sum.split)
qed

lemma submitted_block_cong:
  assumes "confidence_map (confidence inp) = Some cv"
    and "transform env (input_array inp cv) = transform env' (input_array inp cv)"
    and "predict env = predict env'"
    and "predict_proba env = predict_proba env'"
    and "st_progress env = st_progress env'"
  shows "submitted_block env inp st = submitted_block env' inp st"
  using assms(1,2)
  by (simp add: submitted_block_def Let_def predict_block_cong[OF assms(3,4,5)]
      split: sum.split)

lemma brightness_warning_mentions: "sublist ''Brightness'' brightness_warning"
proof -
  have "brightness_warning =
          (warning_sign @ '' '') @ ''Brightness'' @ ('' outside 300'' @ en_dash @ ''450 K!'')"
    by (simp add: brightness_warning_def)
  then show ?thesis
    unfolding sublist_def by blast
qed

lemma no_conf_in_show_warnings:
  "ConfidenceText c \<notin> set (show_warnings ws) \<and> StProgress c \<notin> set (show_warnings ws)"
  by (simp add: show_warnings_def)

subsection \<open>C1: the feature vector\<close>

text \<open>
  C1. For every submission whose confidence level is low, nominal or high, the level has
  a code in \<open>{0, 1, 2}\<close> and the run hands the row
  \<open>[brightness, bright_t31, frp, scan, track, code]\<close>, in this order, to
  \<^verbatim>\<open>scaler.transform\<close>: if the scaler raises on this row the run shows the scaling error
  and stops; if it returns, what it returns is what the prediction body works on, so a
  raising \<^verbatim>\<open>model.predict\<close> is reported with its text and a returning one has its
  result shown first after the warnings. The scaler is consulted at this row and nowhere
  else: two environments that agree on it and on the other calls give the same run. For
  the submission 320, 300, 20, 1, 1, nominal the row is \<open>[320, 300, 20, 1, 1, 1]\<close>, the
  list of warnings is empty and no warning is shown.
\<close>

theorem input_array_fixed_order:
  "(\<forall>inp. confidence inp \<in> {''low'', ''nominal'', ''high''} \<longrightarrow>
      (\<exists>cv. cv \<in> {0, 1, 2} \<and> confidence_map (confidence inp) = Some cv \<and>
         input_array inp cv = [brightness inp, bright_t31 inp, frp inp, scan inp, track inp, real_of_int cv] \<and>
         (\<forall>env (st :: 'a session_state_scheme).
            script env inp PredictPressed st =
              (case transform env [brightness inp, bright_t31 inp, frp inp, scan inp, track inp, real_of_int cv] of
                 Inl e \<Rightarrow>
                   (init_history st,
                    show_warnings (warnings inp) @ [StError (scaling_error_prefix @ str e)],
                    Stopped)
               | Inr scaled \<Rightarrow>
                   (case predict_block env scaled (init_history st) of
                      (st', out, None) \<Rightarrow> (st', show_warnings (warnings inp) @ out, Finished)
                    | (st', out, Some e) \<Rightarrow>
                        (st',
                         show_warnings (warnings inp) @ out @ [StError (prediction_error_prefix @ str e)],
                         Finished)))) \<and>
         (\<forall>env (st :: 'a session_state_scheme) scaled e.
            transform env [brightness inp, bright_t31 inp, frp inp, scan inp, track inp, real_of_int cv] = Inr scaled \<longrightarrow>
            predict env scaled = Inl e \<longrightarrow>
            script env inp PredictPressed st =
              (init_history st,
               show_warnings (warnings inp) @ [StError (prediction_error_prefix @ str e)],
               Finished)) \<and>
         (\<forall>env (st :: 'a session_state_scheme) scaled p.
            transform env [brightness inp, bright_t31 inp, frp inp, scan inp, track inp, real_of_int cv] = Inr scaled \<longrightarrow>
            predict env scaled = Inr p \<longrightarrow>
            (\<exists>rest. fst (snd (script env inp PredictPressed st)) =
                      show_warnings (warnings inp) @ DebugRawPrediction p # rest)) \<and>
         (\<forall>env env' (st :: 'a session_state_scheme).
            transform env [brightness inp, bright_t31 inp, frp inp, scan inp, track inp, real_of_int cv] = transform env' [brightness inp, bright_t31 inp, frp inp, scan inp, track inp, real_of_int cv] \<longrightarrow>
            predict env = predict env' \<longrightarrow> predict_proba env = predict_proba env' \<longrightarrow>
            st_progress env = st_progress env' \<longrightarrow>
            script env inp PredictPressed st = script env' inp PredictPressed st))) \<and>
   warnings example_submission = [] \<and>
   confidence_map (confidence example_submission) = Some 1 \<and>
   input_array example_submission 1 = [320, 300, 20, 1, 1, 1] \<and>
   (\<forall>env (st :: 'a session_state_scheme) w.
      StWarning w \<notin> set (fst (snd (script env example_submission PredictPressed st))))"
proof -
  have gen: "(\<exists>cv. cv \<in> {0, 1, 2} \<and> confidence_map (confidence inp) = Some cv \<and>
         input_array inp cv = [brightness inp, bright_t31 inp, frp inp, scan inp, track inp, real_of_int cv] \<and>
         (\<forall>env (st :: 'a session_state_scheme).
            script env inp PredictPressed st =
              (case transform env [brightness inp, bright_t31 inp, frp inp, scan inp, track inp, real_of_int cv] of
                 Inl e \<Rightarrow>
                   (init_history st,
                    show_warnings (warnings inp) @ [StError (scaling_error_prefix @ str e)],
                    Stopped)
               | Inr scaled \<Rightarrow>
                   (case predict_block env scaled (init_history st) of
                      (st', out, None) \<Rightarrow> (st', show_warnings (warnings inp) @ out, Finished)
                    | (st', out, Some e) \<Rightarrow>
                        (st',
                         show_warnings (warnings inp) @ out @ [StError (prediction_error_prefix @ str e)],
                         Finished)))) \<and>
         (\<forall>env (st :: 'a session_state_scheme) scaled e.
            transform env [brightness inp, bright_t31 inp, frp inp, scan inp, track inp, real_of_int cv] = Inr scaled \<longrightarrow>
            predict env scaled = Inl e \<longrightarrow>
            script env inp PredictPressed st =
              (init_history st,
               show_warnings (warnings inp) @ [StError (prediction_error_prefix @ str e)],
               Finished)) \<and>
         (\<forall>env (st :: 'a session_state_scheme) scaled p.
            transform env [brightness inp, bright_t31 inp, frp inp, scan inp, track inp, real_of_int cv] = Inr scaled \<longrightarrow>
            predict env scaled = Inr p \<longrightarrow>
            (\<exists>rest. fst (snd (script env inp PredictPressed st)) =
                      show_warnings (warnings inp) @ DebugRawPrediction p # rest)) \<and>
         (\<forall>env env' (st :: 'a session_state_scheme).
            transform env [brightness inp, bright_t31 inp, frp inp, scan inp, track inp, real_of_int cv] = transform env' [brightness inp, bright_t31 inp, frp inp, scan inp, track inp, real_of_int cv] \<longrightarrow>
            predict env = predict env' \<longrightarrow> predict_proba env = predict_proba env' \<longrightarrow>
            st_progress env = st_progress env' \<longrightarrow>
            script env inp PredictPressed st = script env' inp PredictPressed st))"
    if lvl: "confidence inp \<in> {''low'', ''nominal'', ''high''}" for inp
  proof -
    from lvl obtain cv where cv: "cv \<in> {0, 1, 2}" "confidence_map (confidence inp) = Some cv"
      by (auto simp: confidence_map_eq_Some)
    have row: "input_array inp cv = [brightness inp, bright_t31 inp, frp inp, scan inp, track inp, real_of_int cv]"
      by (simp add: input_array_def)
    have run: "script env inp PredictPressed st =
              (case transform env [brightness inp, bright_t31 inp, frp inp, scan inp, track inp, real_of_int cv] of
                 Inl e \<Rightarrow>
                   (init_history st,
                    show_warnings (warnings inp) @ [StError (scaling_error_prefix @ str e)],
                    Stopped)
               | Inr scaled \<Rightarrow>
                   (case predict_block env scaled (init_history st) of
                      (st', out, None) \<Rightarrow> (st', show_warnings (warnings inp) @ out, Finished)
                    | (st', out, Some e) \<Rightarrow>
                        (st',
                         show_warnings (warnings inp) @ out @ [StError (prediction_error_prefix @ str e)],
                         Finished)))"
      for env and st :: "'a session_state_scheme"
      using script_by_transform[OF cv(2), of env st] by (simp only: row)
    have raises: "script env inp PredictPressed st =
              (init_history st,
               show_warnings (warnings inp) @ [StError (prediction_error_prefix @ str e)],
               Finished)"
      if "transform env [brightness inp, bright_t31 inp, frp inp, scan inp, track inp, real_of_int cv] = Inr scaled" and "predict env scaled = Inl e"
      for env scaled e and st :: "'a session_state_scheme"
      by (simp add: run that predict_block_predict_raises)
    have returns: "\<exists>rest. fst (snd (script env inp PredictPressed st)) =
                      show_warnings (warnings inp) @ DebugRawPrediction p # rest"
      if t: "transform env [brightness inp, bright_t31 inp, frp inp, scan inp, track inp, real_of_int cv] = Inr scaled" and p: "predict env scaled = Inr p"
      for env scaled p and st :: "'a session_state_scheme"
    proof -
      obtain st' out err where pb: "predict_block env scaled (init_history st) = (st', out, err)"
        by (cases "predict_block env scaled (init_history st)") auto
      from predict_block_starts_with_prediction[OF p, of "init_history st"] pb
      obtain rest where out: "out = DebugRawPrediction p # rest" by auto
      show ?thesis
      proof (cases err)
        case None
        with t pb out show ?thesis by (simp add: run)
      next
        case (Some e)
        with t pb out show ?thesis by (simp add: run)
      qed
    qed
    have same: "script env inp PredictPressed st = script env' inp PredictPressed st"
      if "transform env [brightness inp, bright_t31 inp, frp inp, scan inp, track inp, real_of_int cv] = transform env' [brightness inp, bright_t31 inp, frp inp, scan inp, track inp, real_of_int cv]"
        and "predict env = predict env'" and "predict_proba env = predict_proba env'"
        and "st_progress env = st_progress env'"
      for env env' and st :: "'a session_state_scheme"
      unfolding script_PredictPressed
      by (rule submitted_block_cong[OF cv(2) _ that(2,3,4)]) (simp only: row that(1))
    show ?thesis
      apply (intro exI[of _ cv] conjI allI impI)
            apply (rule cv(1))
           apply (rule cv(2))
          apply (rule row)
         apply (rule run)
        apply (rule raises; assumption)
       apply (rule returns; assumption)
      apply (rule same; assumption)
      done
  qed
  have w: "warnings example_submission = []"
    by (simp add: warnings_def example_submission_def)
  have c: "confidence_map (confidence example_submission) = Some 1"
    by (simp add: confidence_map_def example_submission_def)
  have v: "input_array example_submission 1 = [320, 300, 20, 1, 1, 1]"
    by (simp add: input_array_def example_submission_def)
  have n: "StWarning w \<notin> set (fst (snd (script env example_submission PredictPressed st)))"
    for env w and st :: "'a session_state_scheme"
    unfolding script_PredictPressed by (rule submitted_block_no_warning[OF w])
  show ?thesis
    apply (intro conjI)
        apply (intro allI impI)
        apply (rule gen, assumption)
       apply (rule w)
      apply (rule c)
     apply (rule v)
    apply (intro allI)
    apply (rule n)
    done
qed

theorem input_array_fixed_order_witness:
  "confidence example_submission \<in> {''low'', ''nominal'', ''high''} \<and>
   transform picky_scaler [320, 300, 20, 1, 1, 1] = Inr [320, 300, 20, 1, 1, 1] \<and>
   transform picky_scaler [300, 320, 20, 1, 1, 1] = Inl (Exn ValueError ''unexpected row'') \<and>
   script picky_scaler example_submission PredictPressed fresh_session =
     (fresh_session
        \<lparr>history := Some [\<lparr>h_result = vegetation_fire, h_confidence = 9 / 10\<rparr>]\<rparr>,
      [DebugRawPrediction 0, DebugProbabilities [9 / 10, 1 / 10, 0, 0],
       PredictionBox vegetation_fire, ConfidenceText (9 / 10), StProgress (9 / 10)],
      Finished) \<and>
   script working_artifacts example_submission PredictPressed fresh_session =
     script picky_scaler example_submission PredictPressed fresh_session"
proof -
  have m: "confidence example_submission \<in> {''low'', ''nominal'', ''high''}"
    by (simp add: example_submission_def)
  have one: "confidence_map (confidence example_submission) = Some cv \<Longrightarrow> cv = 1" for cv
    by (simp add: confidence_map_def example_submission_def)
  have t1: "transform picky_scaler [320, 300, 20, 1, 1, 1] = Inr [320, 300, 20, 1, 1, 1]"
    by (simp add: picky_scaler_def)
  have t2: "transform picky_scaler [300, 320, 20, 1, 1, 1] =
              Inl (Exn ValueError ''unexpected row'')"
    by (simp add: picky_scaler_def)
  from input_array_fixed_order[where 'a = unit, THEN conjunct1, rule_format, OF m]
  obtain cv where cv: "confidence_map (confidence example_submission) = Some cv"
    and run: "\<forall>env (st :: session_state).
            script env example_submission PredictPressed st =
              (case transform env [brightness example_submission, bright_t31 example_submission, frp example_submission, scan example_submission, track example_submission, real_of_int cv] of
                 Inl e \<Rightarrow>
                   (init_history st,
                    show_warnings (warnings example_submission) @
                      [StError (scaling_error_prefix @ str e)],
                    Stopped)
               | Inr scaled \<Rightarrow>
                   (case predict_block env scaled (init_history st) of
                      (st', out, None) \<Rightarrow>
                        (st', show_warnings (warnings example_submission) @ out, Finished)
                    | (st', out, Some e) \<Rightarrow>
                        (st',
                         show_warnings (warnings example_submission) @ out @
                           [StError (prediction_error_prefix @ str e)],
                         Finished)))"
    and dep: "\<forall>env env' (st :: session_state).
            transform env [brightness example_submission, bright_t31 example_submission, frp example_submission, scan example_submission, track example_submission, real_of_int cv] = transform env' [brightness example_submission, bright_t31 example_submission, frp example_submission, scan example_submission, track example_submission, real_of_int cv] \<longrightarrow>
            predict env = predict env' \<longrightarrow> predict_proba env = predict_proba env' \<longrightarrow>
            st_progress env = st_progress env' \<longrightarrow>
            script env example_submission PredictPressed st =
              script env' example_submission PredictPressed st"
    by blast
  have cv1: "cv = 1" by (rule one[OF cv])
  have exrow: "[brightness example_submission, bright_t31 example_submission, frp example_submission, scan example_submission, track example_submission, real_of_int cv] = [320, 300, 20, 1, 1, 1]"
    by (simp add: cv1 example_submission_def)
  have sw: "show_warnings (warnings example_submission) = []"
    by (simp add: show_warnings_def warnings_def example_submission_def)
  have pb: "predict_block picky_scaler [320, 300, 20, 1, 1, 1] (init_history fresh_session) =
              (fresh_session
                 \<lparr>history := Some [\<lparr>h_result = vegetation_fire, h_confidence = 9 / 10\<rparr>]\<rparr>,
               [DebugRawPrediction 0, DebugProbabilities [9 / 10, 1 / 10, 0, 0],
                PredictionBox vegetation_fire, ConfidenceText (9 / 10), StProgress (9 / 10)],
               None)"
    by (simp add: predict_block_def proba_block_def py_max_def show_prediction_def
        picky_scaler_def working_artifacts_def init_history_def fresh_session_def
        save_to_history_eq new_entry_def fire_types_get_def fire_types_def)
  have r: "script picky_scaler example_submission PredictPressed fresh_session =
     (fresh_session
        \<lparr>history := Some [\<lparr>h_result = vegetation_fire, h_confidence = 9 / 10\<rparr>]\<rparr>,
      [DebugRawPrediction 0, DebugProbabilities [9 / 10, 1 / 10, 0, 0],
       PredictionBox vegetation_fire, ConfidenceText (9 / 10), StProgress (9 / 10)],
      Finished)"
    using run[rule_format, of picky_scaler fresh_session]
    by (simp only: exrow t1 sw pb sum.case prod.case option.case append_Nil)
  have s: "script working_artifacts example_submission PredictPressed fresh_session =
     script picky_scaler example_submission PredictPressed fresh_session"
  proof (rule dep[rule_format])
    show "transform working_artifacts [brightness example_submission, bright_t31 example_submission, frp example_submission, scan example_submission, track example_submission, real_of_int cv] = transform picky_scaler [brightness example_submission, bright_t31 example_submission, frp example_submission, scan example_submission, track example_submission, real_of_int cv]"
      by (simp add: exrow working_artifacts_def picky_scaler_def)
    show "predict working_artifacts = predict picky_scaler"
      by (simp add: picky_scaler_def)
    show "predict_proba working_artifacts = predict_proba picky_scaler"
      by (simp add: picky_scaler_def)
    show "st_progress working_artifacts = st_progress picky_scaler"
      by (simp add: picky_scaler_def)
  qed
  from m t1 t2 r s show ?thesis by (intro conjI)
qed

subsection \<open>C2: the label of a prediction code\<close>

text \<open>
  The labels of the source carry emoji after the name, so the label of code 0 is not the
  bare text "Vegetation Fire", and likewise for the other three labels.
\<close>

theorem fire_types_get_plain_name_counterexample:
  "fire_types_get 0 \<noteq> ''Vegetation Fire'' \<and> fire_types_get 2 \<noteq> ''Static Land Source'' \<and>
   fire_types_get 3 \<noteq> ''Offshore Fire'' \<and> fire_types_get 1 \<noteq> ''Unknown Fire Type''"
  by (simp add: fire_types_get_def fire_types_def literal_defs)

text \<open>
  C2, amended. \<^verbatim>\<open>fire_types.get(prediction, default)\<close> is a total function of the integer
  code alone: 0 gives "Vegetation Fire" followed by a space, U+1F33F and U+1F525; 2 gives
  "Static Land Source" followed by a space, U+1F3ED and U+1F525; 3 gives "Offshore Fire"
  followed by a space, U+1F30A and U+1F525; every other integer (1, 4 and -1 among them)
  gives "Unknown Fire Type" followed by a space and U+2753.
\<close>

theorem fire_types_get_total:
  "fire_types_get 0 = ''Vegetation Fire '' @ herb_emoji @ fire_emoji \<and>
   fire_types_get 2 = ''Static Land Source '' @ factory_emoji @ fire_emoji \<and>
   fire_types_get 3 = ''Offshore Fire '' @ wave_emoji @ fire_emoji \<and>
   (\<forall>p. p \<notin> {0, 2, 3} \<longrightarrow> fire_types_get p = ''Unknown Fire Type '' @ question_mark_emoji)"
  by (simp add: fire_types_get_def fire_types_def literal_defs)

theorem fire_types_get_total_witness:
  "(1::int) \<notin> {0, 2, 3} \<and> (4::int) \<notin> {0, 2, 3} \<and> (-1::int) \<notin> {0, 2, 3} \<and>
   fire_types_get 1 = ''Unknown Fire Type '' @ question_mark_emoji \<and>
   fire_types_get 4 = ''Unknown Fire Type '' @ question_mark_emoji \<and>
   fire_types_get (-1) = ''Unknown Fire Type '' @ question_mark_emoji"
  using fire_types_get_total by simp

subsection \<open>C3: the bounded history\<close>

text \<open>
  C3. The history list never has more than 10 entries: this holds after any sequence of
  interactions of a session that starts empty, and every interaction preserves it. On a
  list of exactly 10 entries, saving an entry removes the entry at index 0, keeps the
  other nine in their order one position earlier, and puts the new entry last. This is
  what a prediction does to the history of the session: a run that gets through the
  scaler, the classifier and the display appends its entry to a history of fewer than 10
  entries, and on a history of exactly 10 entries drops the oldest and puts its entry
  last.
\<close>

theorem history_at_most_10_fifo:
  "length (history_list (session fresh_session reqs)) \<le> 10 \<and>
   (length (history_list (st :: 'a session_state_scheme)) \<le> 10 \<longrightarrow>
      length (history_list (fst (script env inp b st))) \<le> 10) \<and>
   (length h = 10 \<longrightarrow>
      save_to_history h e = (tl h @ [e], None) \<and>
      length (tl h @ [e]) = 10 \<and>
      (\<forall>i < 9. (tl h @ [e]) ! i = h ! (i + 1)) \<and>
      (tl h @ [e]) ! 9 = e) \<and>
   (\<forall>env inp (st :: 'a session_state_scheme) cv scaled p out mp.
      confidence_map (confidence inp) = Some cv \<longrightarrow>
      transform env (input_array inp cv) = Inr scaled \<longrightarrow>
      predict env scaled = Inr p \<longrightarrow>
      proba_block env scaled = (out, Inr mp) \<longrightarrow>
      (\<forall>q. mp = Some q \<longrightarrow> q \<noteq> 0 \<longrightarrow> st_progress env q = None) \<longrightarrow>
      (length (history_list st) < 10 \<longrightarrow>
         history_list (fst (script env inp PredictPressed st)) =
           history_list st @ [new_entry (fire_types_get p) mp]) \<and>
      (length (history_list st) = 10 \<longrightarrow>
         history_list (fst (script env inp PredictPressed st)) =
           tl (history_list st) @ [new_entry (fire_types_get p) mp] \<and>
         length (history_list (fst (script env inp PredictPressed st))) = 10 \<and>
         (\<forall>i < 9. history_list (fst (script env inp PredictPressed st)) ! i =
                   history_list st ! (i + 1)) \<and>
         history_list (fst (script env inp PredictPressed st)) ! 9 =
           new_entry (fire_types_get p) mp))"
proof -
  have a: "length (history_list (session fresh_session reqs)) \<le> 10"
    by (rule session_history_bound) (simp add: history_list_def fresh_session_def)
  have b: "length (history_list st) \<le> 10 \<longrightarrow>
      length (history_list (fst (script env inp b st))) \<le> 10"
    using script_history_bound by blast
  have c: "save_to_history h e = (tl h @ [e], None) \<and>
      length (tl h @ [e]) = 10 \<and>
      (\<forall>i < 9. (tl h @ [e]) ! i = h ! (i + 1)) \<and>
      (tl h @ [e]) ! 9 = e" if len: "length h = 10" for h :: "history_entry list" and e
  proof -
    from len obtain x rest where h: "h = x # rest" and r: "length rest = 9"
      by (cases h) auto
    have "save_to_history h e = (tl h @ [e], None)"
      using len h by (simp add: save_to_history_eq)
    moreover have "length (tl h @ [e]) = 10" using h r by simp
    moreover have "\<forall>i < 9. (tl h @ [e]) ! i = h ! (i + 1)"
      using h r by (simp add: nth_append)
    moreover have "(tl h @ [e]) ! 9 = e"
      using h r by (simp add: nth_append)
    ultimately show ?thesis by (intro conjI)
  qed
  have d: "(length (history_list st) < 10 \<longrightarrow>
         history_list (fst (script env inp PredictPressed st)) =
           history_list st @ [new_entry (fire_types_get p) mp]) \<and>
      (length (history_list st) = 10 \<longrightarrow>
         history_list (fst (script env inp PredictPressed st)) =
           tl (history_list st) @ [new_entry (fire_types_get p) mp] \<and>
         length (history_list (fst (script env inp PredictPressed st))) = 10 \<and>
         (\<forall>i < 9. history_list (fst (script env inp PredictPressed st)) ! i =
                   history_list st ! (i + 1)) \<and>
         history_list (fst (script env inp PredictPressed st)) ! 9 =
           new_entry (fire_types_get p) mp)"
    if cm: "confidence_map (confidence inp) = Some cv"
      and t: "transform env (input_array inp cv) = Inr scaled"
      and pr: "predict env scaled = Inr p"
      and pb: "proba_block env scaled = (out, Inr mp)"
      and acc: "\<forall>q. mp = Some q \<longrightarrow> q \<noteq> 0 \<longrightarrow> st_progress env q = None"
    for env inp cv scaled p out mp and st :: "'a session_state_scheme"
  proof -
    let ?e = "new_entry (fire_types_get p) mp"
    have hl: "history_list (fst (script env inp PredictPressed st)) =
                fst (save_to_history (history_list st) ?e)"
      using script_predict_success[OF cm t pr pb show_prediction_accepted[OF acc], of st]
      by (simp add: history_list_update)
    have short: "history_list (fst (script env inp PredictPressed st)) =
                   history_list st @ [?e]" if "length (history_list st) < 10"
      using that by (simp add: hl save_to_history_eq)
    have full: "history_list (fst (script env inp PredictPressed st)) =
           tl (history_list st) @ [?e] \<and>
         length (history_list (fst (script env inp PredictPressed st))) = 10 \<and>
         (\<forall>i < 9. history_list (fst (script env inp PredictPressed st)) ! i =
                   history_list st ! (i + 1)) \<and>
         history_list (fst (script env inp PredictPressed st)) ! 9 = ?e"
      if len: "length (history_list st) = 10"
    proof -
      have "history_list (fst (script env inp PredictPressed st)) = tl (history_list st) @ [?e]"
        using c[OF len, of ?e] by (simp add: hl)
      with c[OF len, of ?e] show ?thesis by simp
    qed
    show ?thesis
      apply (rule conjI)
       apply (rule impI)
       apply (rule short, assumption)
      apply (rule impI)
      apply (rule full, assumption)
      done
  qed
  show ?thesis
    apply (intro conjI)
       apply (rule a)
      apply (rule b)
     apply (intro impI)
     apply (rule c, assumption)
    apply (intro allI impI)
    apply (rule d; assumption)
    done
qed

theorem history_at_most_10_fifo_witness:
  "length ten_entries = 10 \<and>
   save_to_history ten_entries \<lparr>h_result = ''k'', h_confidence = 1 / 2\<rparr> =
     (tl ten_entries @ [\<lparr>h_result = ''k'', h_confidence = 1 / 2\<rparr>], None) \<and>
   length (history_list fresh_session) \<le> 10 \<and>
   length (history_list
             (fst (script working_artifacts example_submission PredictPressed
                     fresh_session))) \<le> 10 \<and>
   history_list
     (fst (script working_artifacts example_submission PredictPressed
             (fresh_session\<lparr>history := Some ten_entries\<rparr>))) =
     [\<lparr>h_result = ''b'', h_confidence = 1\<rparr>, \<lparr>h_result = ''c'', h_confidence = 1\<rparr>,
      \<lparr>h_result = ''d'', h_confidence = 1\<rparr>, \<lparr>h_result = ''e'', h_confidence = 1\<rparr>,
      \<lparr>h_result = ''f'', h_confidence = 1\<rparr>, \<lparr>h_result = ''g'', h_confidence = 1\<rparr>,
      \<lparr>h_result = ''h'', h_confidence = 1\<rparr>, \<lparr>h_result = ''i'', h_confidence = 1\<rparr>,
      \<lparr>h_result = ''j'', h_confidence = 1\<rparr>,
      \<lparr>h_result = vegetation_fire, h_confidence = 9 / 10\<rparr>]"
proof -
  let ?v = "[320, 300, 20, 1, 1, 1] :: real list"
  let ?st = "fresh_session\<lparr>history := Some ten_entries\<rparr>"
  have l: "length ten_entries = 10" by (simp add: ten_entries_def)
  have f: "length (history_list fresh_session) \<le> 10"
    by (simp add: history_list_def fresh_session_def)
  note t = history_at_most_10_fifo
             [where 'a = unit, of "[]" fresh_session working_artifacts example_submission
                PredictPressed ten_entries "\<lparr>h_result = ''k'', h_confidence = 1 / 2\<rparr>"]
  have s: "save_to_history ten_entries \<lparr>h_result = ''k'', h_confidence = 1 / 2\<rparr> =
     (tl ten_entries @ [\<lparr>h_result = ''k'', h_confidence = 1 / 2\<rparr>], None)"
    using t[THEN conjunct2, THEN conjunct2, THEN conjunct1, rule_format, OF l]
    by (rule conjunct1)
  have b: "length (history_list
             (fst (script working_artifacts example_submission PredictPressed
                     fresh_session))) \<le> 10"
    by (rule t[THEN conjunct2, THEN conjunct1, rule_format, OF f])
  have c: "confidence_map (confidence example_submission) = Some 1"
    by (simp add: confidence_map_def example_submission_def)
  have tr: "transform working_artifacts (input_array example_submission 1) = Inr ?v"
    by (simp add: working_artifacts_def input_array_def example_submission_def)
  have p: "predict working_artifacts ?v = Inr 0"
    by (simp add: working_artifacts_def)
  have pb: "proba_block working_artifacts ?v =
              ([DebugProbabilities [9 / 10, 1 / 10, 0, 0]], Inr (Some (9 / 10)))"
    by (simp add: proba_block_def working_artifacts_def py_max_def)
  have acc: "\<forall>q. Some (9 / 10 :: real) = Some q \<longrightarrow> q \<noteq> 0 \<longrightarrow>
               st_progress working_artifacts q = None"
    by (simp add: working_artifacts_def)
  have hl: "history_list ?st = ten_entries" by (simp add: history_list_def)
  have len: "length (history_list ?st) = 10" by (simp add: hl l)
  have "history_list (fst (script working_artifacts example_submission PredictPressed ?st)) =
          tl (history_list ?st) @ [new_entry (fire_types_get 0) (Some (9 / 10))]"
    using t[THEN conjunct2, THEN conjunct2, THEN conjunct2, rule_format, OF c tr p pb,
            of ?st, THEN conjunct2, rule_format, OF _ len, THEN conjunct1] acc
    by blast
  then have d: "history_list
     (fst (script working_artifacts example_submission PredictPressed ?st)) =
     [\<lparr>h_result = ''b'', h_confidence = 1\<rparr>, \<lparr>h_result = ''c'', h_confidence = 1\<rparr>,
      \<lparr>h_result = ''d'', h_confidence = 1\<rparr>, \<lparr>h_result = ''e'', h_confidence = 1\<rparr>,
      \<lparr>h_result = ''f'', h_confidence = 1\<rparr>, \<lparr>h_result = ''g'', h_confidence = 1\<rparr>,
      \<lparr>h_result = ''h'', h_confidence = 1\<rparr>, \<lparr>h_result = ''i'', h_confidence = 1\<rparr>,
      \<lparr>h_result = ''j'', h_confidence = 1\<rparr>,
      \<lparr>h_result = vegetation_fire, h_confidence = 9 / 10\<rparr>]"
    unfolding hl
    by (simp add: ten_entries_def new_entry_def fire_types_get_def fire_types_def)
  from l s f b d show ?thesis by (intro conjI)
qed

subsection \<open>C4: the confidence code\<close>

text \<open>
  C4. The dictionary \<^verbatim>\<open>confidence_map\<close> sends low to 0, nominal to 1 and high to 2, and
  these are all its keys and values. Restricted to its keys it is a bijection onto
  \<open>{0, 1, 2}\<close>: every code has exactly one preimage, and mapping a level to its code and
  back through the inverse, or a code to its level and forth, is the identity.
\<close>

theorem confidence_map_bijection:
  "confidence_map ''low'' = Some 0 \<and> confidence_map ''nominal'' = Some 1 \<and>
   confidence_map ''high'' = Some 2 \<and>
   dom confidence_map = {''low'', ''nominal'', ''high''} \<and>
   ran confidence_map = {0, 1, 2} \<and>
   bij_betw (\<lambda>c. the (confidence_map c)) {''low'', ''nominal'', ''high''} {0, 1, 2} \<and>
   (\<forall>n \<in> {0, 1, 2}. \<exists>!c. confidence_map c = Some n) \<and>
   (\<forall>c \<in> {''low'', ''nominal'', ''high''}.
      the_inv_into {''low'', ''nominal'', ''high''} (\<lambda>c. the (confidence_map c))
        (the (confidence_map c)) = c) \<and>
   (\<forall>n \<in> {0, 1, 2}.
      confidence_map
        (the_inv_into {''low'', ''nominal'', ''high''} (\<lambda>c. the (confidence_map c)) n) =
      Some n)"
proof -
  let ?L = "{''low'', ''nominal'', ''high''}"
  let ?f = "\<lambda>c. the (confidence_map c)"
  have vals: "confidence_map ''low'' = Some 0" "confidence_map ''nominal'' = Some 1"
    "confidence_map ''high'' = Some 2"
    by (simp_all add: confidence_map_def)
  have d: "dom confidence_map = ?L"
    by (simp add: confidence_map_def insert_commute)
  have r: "ran confidence_map = {0, 1, 2}"
    unfolding ran_def confidence_map_eq_Some by blast
  have inj: "inj_on ?f ?L"
    by (simp add: inj_on_def vals)
  have img: "?f ` ?L = {0, 1, 2}"
    by (auto simp: vals)
  have bij: "bij_betw ?f ?L {0, 1, 2}"
    using inj img by (simp add: bij_betw_def)
  have uniq: "\<forall>n \<in> {0, 1, 2}. \<exists>!c. confidence_map c = Some n"
    by (simp add: confidence_map_eq_Some)
  have rt1: "\<forall>c \<in> ?L. the_inv_into ?L ?f (?f c) = c"
  proof
    fix c assume "c \<in> ?L"
    with inj show "the_inv_into ?L ?f (?f c) = c" by (rule the_inv_into_f_f)
  qed
  have rt2: "\<forall>n \<in> {0, 1, 2}. confidence_map (the_inv_into ?L ?f n) = Some n"
  proof
    fix n :: int assume n: "n \<in> {0, 1, 2}"
    then have "n \<in> ?f ` ?L" using img by simp
    then have a: "?f (the_inv_into ?L ?f n) = n"
      using inj by (rule f_the_inv_into_f[rotated])
    have "the_inv_into ?L ?f n \<in> ?L"
      using bij n by (metis bij_betw_def the_inv_into_into subset_refl img)
    then have "the_inv_into ?L ?f n \<in> dom confidence_map" using d by simp
    then obtain m where "confidence_map (the_inv_into ?L ?f n) = Some m" by blast
    with a show "confidence_map (the_inv_into ?L ?f n) = Some n" by simp
  qed
  show ?thesis using vals d r bij uniq rt1 rt2 by blast
qed

theorem confidence_map_bijection_witness:
  "(1::int) \<in> {0, 1, 2} \<and> ''nominal'' \<in> {''low'', ''nominal'', ''high''} \<and>
   (\<exists>!c. confidence_map c = Some 1) \<and>
   the_inv_into {''low'', ''nominal'', ''high''} (\<lambda>c. the (confidence_map c))
     (the (confidence_map ''nominal'')) = ''nominal''"
proof -
  have m1: "(1::int) \<in> {0, 1, 2}" by simp
  have m2: "''nominal'' \<in> {''low'', ''nominal'', ''high''}" by simp
  from confidence_map_bijection
  have u: "\<forall>n \<in> {0, 1, 2}. \<exists>!c. confidence_map c = Some n"
    and r: "\<forall>c \<in> {''low'', ''nominal'', ''high''}.
      the_inv_into {''low'', ''nominal'', ''high''} (\<lambda>c. the (confidence_map c))
        (the (confidence_map c)) = c"
    by blast+
  from u m1 have "\<exists>!c. confidence_map c = Some 1" by (rule bspec)
  moreover from r m2 have "the_inv_into {''low'', ''nominal'', ''high''} (\<lambda>c. the (confidence_map c))
     (the (confidence_map ''nominal'')) = ''nominal''" by (rule bspec)
  ultimately show ?thesis using m1 m2 by (intro conjI)
qed

subsection \<open>C5: readings inside the ranges\<close>

text \<open>
  C5. When brightness is in [300, 450], bright_t31 in [290, 400] and frp in [0, 100],
  bounds included, the list of warnings is empty whatever scan, track and confidence
  are, and the run shows no warning.
\<close>

theorem warnings_empty_in_range:
  assumes "300 \<le> brightness inp" and "brightness inp \<le> 450"
    and "290 \<le> bright_t31 inp" and "bright_t31 inp \<le> 400"
    and "0 \<le> frp inp" and "frp inp \<le> 100"
  shows "warnings inp = [] \<and> show_warnings (warnings inp) = [] \<and>
         (\<forall>env (st :: 'a session_state_scheme) w.
            StWarning w \<notin> set (fst (snd (script env inp PredictPressed st))))"
proof -
  have w: "warnings inp = []"
    using assms by (simp add: warnings_def)
  then have "show_warnings (warnings inp) = []"
    by (simp add: show_warnings_def)
  moreover have "StWarning w \<notin> set (fst (snd (script env inp PredictPressed st)))"
    for env w and st :: "'a session_state_scheme"
    unfolding script_PredictPressed by (rule submitted_block_no_warning[OF w])
  ultimately show ?thesis using w by blast
qed

theorem warnings_empty_in_range_witness:
  "warnings \<lparr>brightness = 300, bright_t31 = 400, frp = 0, scan = 7, track = 0,
             confidence = ''high''\<rparr> = [] \<and>
   warnings \<lparr>brightness = 450, bright_t31 = 290, frp = 100, scan = 1, track = 1,
             confidence = ''low''\<rparr> = []"
  using warnings_empty_in_range
          [where 'a = unit, of "\<lparr>brightness = 300, bright_t31 = 400, frp = 0, scan = 7, track = 0,
                confidence = ''high''\<rparr>"]
        warnings_empty_in_range
          [where 'a = unit, of "\<lparr>brightness = 450, bright_t31 = 290, frp = 100, scan = 1, track = 1,
                confidence = ''low''\<rparr>"]
  by simp

subsection \<open>C6: brightness 500\<close>

text \<open>
  C6. With brightness 500, bright_t31 in [290, 400] and frp in [0, 100] the list of
  warnings has exactly one element, the brightness warning, whose text contains
  "Brightness" and which is neither of the other two warnings. The warning does not stop
  the run: whenever the scaler and the classifier return, the prediction is shown after
  the warning. If \<^verbatim>\<open>st.progress\<close> accepts the top probability, or is not called because
  there is none or it is zero, the entry is saved to the history and the run finishes.
  If \<^verbatim>\<open>st.progress\<close> raises, the prediction box and the confidence text have been shown,
  the exception is reported as a prediction error and nothing is saved.
\<close>

theorem brightness_500_warns_and_proceeds:
  assumes "brightness inp = 500"
    and "290 \<le> bright_t31 inp" and "bright_t31 inp \<le> 400"
    and "0 \<le> frp inp" and "frp inp \<le> 100"
  shows "(warnings inp = [brightness_warning] \<and> length (warnings inp) = 1 \<and>
          sublist ''Brightness'' brightness_warning \<and>
          brightness_warning \<noteq> bright_t31_warning \<and> brightness_warning \<noteq> frp_warning) \<and>
         (\<forall>env (st :: 'a session_state_scheme) cv scaled p out mp.
            confidence_map (confidence inp) = Some cv \<longrightarrow>
            transform env (input_array inp cv) = Inr scaled \<longrightarrow>
            predict env scaled = Inr p \<longrightarrow>
            proba_block env scaled = (out, Inr mp) \<longrightarrow>
            (\<forall>q. mp = Some q \<longrightarrow> q \<noteq> 0 \<longrightarrow> st_progress env q = None) \<longrightarrow>
            script env inp PredictPressed st =
              ((init_history st)
                 \<lparr>history :=
                    Some (fst (save_to_history (history_list st)
                                 (new_entry (fire_types_get p) mp)))\<rparr>,
               StWarning brightness_warning #
                 DebugRawPrediction p # out @
                   PredictionBox (fire_types_get p) #
                   (case mp of
                      Some q \<Rightarrow> if q \<noteq> 0 then [ConfidenceText q, StProgress q] else []
                    | None \<Rightarrow> []),
               Finished)) \<and>
         (\<forall>env (st :: 'a session_state_scheme) cv scaled p out q e.
            confidence_map (confidence inp) = Some cv \<longrightarrow>
            transform env (input_array inp cv) = Inr scaled \<longrightarrow>
            predict env scaled = Inr p \<longrightarrow>
            proba_block env scaled = (out, Inr (Some q)) \<longrightarrow>
            q \<noteq> 0 \<longrightarrow> st_progress env q = Some e \<longrightarrow>
            script env inp PredictPressed st =
              (init_history st,
               StWarning brightness_warning #
                 DebugRawPrediction p # out @
                   [PredictionBox (fire_types_get p), ConfidenceText q,
                    StError (prediction_error_prefix @ str e)],
               Finished))"
proof -
  have w: "warnings inp = [brightness_warning]"
    using assms by (simp add: warnings_def)
  have sw: "show_warnings (warnings inp) = [StWarning brightness_warning]"
    by (simp add: w show_warnings_def)
  have first: "warnings inp = [brightness_warning] \<and> length (warnings inp) = 1 \<and>
          sublist ''Brightness'' brightness_warning \<and>
          brightness_warning \<noteq> bright_t31_warning \<and> brightness_warning \<noteq> frp_warning"
  proof (intro conjI)
    show "warnings inp = [brightness_warning]" by (rule w)
    show "length (warnings inp) = 1" by (simp add: w)
    show "sublist ''Brightness'' brightness_warning"
      by (rule brightness_warning_mentions)
    show "brightness_warning \<noteq> bright_t31_warning"
      by (simp add: brightness_warning_def bright_t31_warning_def)
    show "brightness_warning \<noteq> frp_warning"
      by (simp add: brightness_warning_def frp_warning_def)
  qed
  have accepted: "script env inp PredictPressed st =
              ((init_history st)
                 \<lparr>history :=
                    Some (fst (save_to_history (history_list st)
                                 (new_entry (fire_types_get p) mp)))\<rparr>,
               StWarning brightness_warning #
                 DebugRawPrediction p # out @
                   PredictionBox (fire_types_get p) #
                   (case mp of
                      Some q \<Rightarrow> if q \<noteq> 0 then [ConfidenceText q, StProgress q] else []
                    | None \<Rightarrow> []),
               Finished)"
    if "confidence_map (confidence inp) = Some cv"
      and "transform env (input_array inp cv) = Inr scaled"
      and "predict env scaled = Inr p"
      and "proba_block env scaled = (out, Inr mp)"
      and acc: "\<forall>q. mp = Some q \<longrightarrow> q \<noteq> 0 \<longrightarrow> st_progress env q = None"
    for env cv scaled p out mp and st :: "'a session_state_scheme"
    using script_predict_success[OF that(1-4) show_prediction_accepted[OF acc], of st]
    by (simp add: sw)
  have rejected: "script env inp PredictPressed st =
              (init_history st,
               StWarning brightness_warning #
                 DebugRawPrediction p # out @
                   [PredictionBox (fire_types_get p), ConfidenceText q,
                    StError (prediction_error_prefix @ str e)],
               Finished)"
    if "confidence_map (confidence inp) = Some cv"
      and "transform env (input_array inp cv) = Inr scaled"
      and "predict env scaled = Inr p"
      and "proba_block env scaled = (out, Inr (Some q))"
      and "q \<noteq> 0" and "st_progress env q = Some e"
    for env cv scaled p out q e and st :: "'a session_state_scheme"
    using script_progress_raises[OF that(1-4) show_prediction_rejected[OF that(5,6)], of st]
    by (simp add: sw)
  show ?thesis
    apply (rule conjI)
     apply (rule first)
    apply (rule conjI)
     apply (intro allI impI)
     apply (rule accepted; assumption)
    apply (intro allI impI)
    apply (rule rejected; assumption)
    done
qed

theorem brightness_500_warns_and_proceeds_witness:
  "(let inp = example_submission\<lparr>brightness := 500\<rparr>
    in warnings inp = [brightness_warning] \<and>
       script working_artifacts inp PredictPressed fresh_session =
         (fresh_session\<lparr>history := Some [\<lparr>h_result = vegetation_fire, h_confidence = 9 / 10\<rparr>]\<rparr>,
          [StWarning brightness_warning, DebugRawPrediction 0,
           DebugProbabilities [9 / 10, 1 / 10, 0, 0], PredictionBox vegetation_fire,
           ConfidenceText (9 / 10), StProgress (9 / 10)],
          Finished) \<and>
       script over_one_artifacts inp PredictPressed
         (fresh_session\<lparr>history := Some ten_entries\<rparr>) =
         (fresh_session\<lparr>history := Some ten_entries\<rparr>,
          [StWarning brightness_warning, DebugRawPrediction 0,
           DebugProbabilities [3 / 2, 1 / 4], PredictionBox vegetation_fire,
           ConfidenceText (3 / 2),
           StError (prediction_error_prefix @ ''invalid value'')],
          Finished))"
proof -
  let ?inp = "example_submission\<lparr>brightness := 500\<rparr>"
  let ?v = "[500, 300, 20, 1, 1, 1] :: real list"
  let ?full = "fresh_session\<lparr>history := Some ten_entries\<rparr>"
  have h: "brightness ?inp = 500" "290 \<le> bright_t31 ?inp" "bright_t31 ?inp \<le> 400"
    "0 \<le> frp ?inp" "frp ?inp \<le> 100"
    by (simp_all add: example_submission_def)
  have c: "confidence_map (confidence ?inp) = Some 1"
    by (simp add: confidence_map_def example_submission_def)
  have t: "transform working_artifacts (input_array ?inp 1) = Inr ?v"
    by (simp add: working_artifacts_def input_array_def example_submission_def)
  have p: "predict working_artifacts ?v = Inr 0"
    by (simp add: working_artifacts_def)
  have pb: "proba_block working_artifacts ?v =
              ([DebugProbabilities [9 / 10, 1 / 10, 0, 0]], Inr (Some (9 / 10)))"
    by (simp add: proba_block_def working_artifacts_def py_max_def)
  have acc: "\<forall>q. Some (9 / 10 :: real) = Some q \<longrightarrow> q \<noteq> 0 \<longrightarrow>
               st_progress working_artifacts q = None"
    by (simp add: working_artifacts_def)
  have t': "transform over_one_artifacts (input_array ?inp 1) = Inr ?v"
    by (simp add: over_one_artifacts_def working_artifacts_def input_array_def
        example_submission_def)
  have p': "predict over_one_artifacts ?v = Inr 0"
    by (simp add: over_one_artifacts_def working_artifacts_def)
  have pb': "proba_block over_one_artifacts ?v =
              ([DebugProbabilities [3 / 2, 1 / 4]], Inr (Some (3 / 2)))"
    by (simp add: proba_block_def over_one_artifacts_def py_max_def)
  have nz: "(3 / 2 :: real) \<noteq> 0" by simp
  have rej: "st_progress over_one_artifacts (3 / 2) =
               Some (Exn StreamlitAPIException ''invalid value'')"
    by (simp add: over_one_artifacts_def working_artifacts_def)
  note inst = brightness_500_warns_and_proceeds[OF h, where 'a = unit]
  have w: "warnings ?inp = [brightness_warning]"
    by (rule inst[THEN conjunct1, THEN conjunct1])
  have "script working_artifacts ?inp PredictPressed fresh_session =
          ((init_history fresh_session)
             \<lparr>history :=
                Some (fst (save_to_history (history_list fresh_session)
                             (new_entry (fire_types_get 0) (Some (9 / 10)))))\<rparr>,
           StWarning brightness_warning #
             DebugRawPrediction 0 # [DebugProbabilities [9 / 10, 1 / 10, 0, 0]] @
               PredictionBox (fire_types_get 0) #
                 (case Some (9 / 10 :: real) of
                    Some q \<Rightarrow> if q \<noteq> 0 then [ConfidenceText q, StProgress q] else []
                  | None \<Rightarrow> []),
           Finished)"
    by (rule inst[THEN conjunct2, THEN conjunct1, rule_format, OF c t p pb acc[rule_format]])
  then have r1: "script working_artifacts ?inp PredictPressed fresh_session =
         (fresh_session\<lparr>history := Some [\<lparr>h_result = vegetation_fire, h_confidence = 9 / 10\<rparr>]\<rparr>,
          [StWarning brightness_warning, DebugRawPrediction 0,
           DebugProbabilities [9 / 10, 1 / 10, 0, 0], PredictionBox vegetation_fire,
           ConfidenceText (9 / 10), StProgress (9 / 10)],
          Finished)"
    by (simp add: init_history_def fresh_session_def history_list_def save_to_history_eq
        new_entry_def fire_types_get_def fire_types_def)
  have "script over_one_artifacts ?inp PredictPressed ?full =
          (init_history ?full,
           StWarning brightness_warning #
             DebugRawPrediction 0 # [DebugProbabilities [3 / 2, 1 / 4]] @
               [PredictionBox (fire_types_get 0), ConfidenceText (3 / 2),
                StError (prediction_error_prefix @
                           str (Exn StreamlitAPIException ''invalid value''))],
           Finished)"
    by (rule inst[THEN conjunct2, THEN conjunct2, rule_format, OF c t' p' pb' nz rej])
  then have r2: "script over_one_artifacts ?inp PredictPressed ?full =
         (?full,
          [StWarning brightness_warning, DebugRawPrediction 0,
           DebugProbabilities [3 / 2, 1 / 4], PredictionBox vegetation_fire,
           ConfidenceText (3 / 2),
           StError (prediction_error_prefix @ ''invalid value'')],
          Finished)"
    by (simp add: init_history_def fire_types_get_def fire_types_def)
  from w r1 r2 show ?thesis by (simp add: Let_def)
qed

subsection \<open>C7: a failing scaler\<close>

text \<open>
  C7. When \<^verbatim>\<open>scaler.transform\<close> raises on the assembled row, the run shows (after the
  warnings, if any) one error whose text is the scaling prefix followed by \<^verbatim>\<open>str(e)\<close>,
  and stops. The history list is what it was; a session whose history key exists is
  unchanged altogether. Any next interaction runs exactly as it would have run had the
  failed request not been made.
\<close>

theorem scaling_error_aborts_only_this_request:
  assumes "confidence_map (confidence inp) = Some cv"
    and "transform env (input_array inp cv) = Inl e"
  shows "script env inp PredictPressed st =
           (init_history st,
            show_warnings (warnings inp) @ [StError (scaling_error_prefix @ str e)],
            Stopped) \<and>
         sublist (str e) (scaling_error_prefix @ str e) \<and>
         history_list (fst (script env inp PredictPressed st)) = history_list st \<and>
         (history st \<noteq> None \<longrightarrow> fst (script env inp PredictPressed st) = st) \<and>
         (\<forall>env' inp' b'.
            script env' inp' b' (fst (script env inp PredictPressed st)) =
            script env' inp' b' st)"
proof -
  have run: "script env inp PredictPressed st =
           (init_history st,
            show_warnings (warnings inp) @ [StError (scaling_error_prefix @ str e)],
            Stopped)"
    unfolding script_PredictPressed using assms by (simp add: submitted_block_def Let_def)
  have sub: "sublist (str e) (scaling_error_prefix @ str e)"
  proof -
    have "scaling_error_prefix @ str e = scaling_error_prefix @ str e @ []" by simp
    then show ?thesis unfolding sublist_def by blast
  qed
  have hl: "history_list (fst (script env inp PredictPressed st)) = history_list st"
    by (simp add: run history_list_init_history)
  have same: "history st \<noteq> None \<longrightarrow> fst (script env inp PredictPressed st) = st"
    by (auto simp: run init_history_Some)
  have nxt: "script env' inp' b' (fst (script env inp PredictPressed st)) =
            script env' inp' b' st" for env' inp' b'
    by (simp add: run script_init_history)
  from run sub hl same nxt show ?thesis by (intro conjI allI)
qed

theorem scaling_error_aborts_only_this_request_witness:
  "confidence_map (confidence example_submission) = Some 1 \<and>
   transform failing_scaler (input_array example_submission 1) =
     Inl (Exn ValueError ''X has 6 features, expected 5'') \<and>
   script failing_scaler example_submission PredictPressed
     (fresh_session\<lparr>history := Some ten_entries\<rparr>) =
     (fresh_session\<lparr>history := Some ten_entries\<rparr>,
      [StError (scaling_error_prefix @ ''X has 6 features, expected 5'')], Stopped)"
proof -
  have c: "confidence_map (confidence example_submission) = Some 1"
    by (simp add: confidence_map_def example_submission_def)
  have t: "transform failing_scaler (input_array example_submission 1) =
     Inl (Exn ValueError ''X has 6 features, expected 5'')"
    by (simp add: failing_scaler_def)
  have w: "show_warnings (warnings example_submission) = []"
    by (simp add: show_warnings_def warnings_def example_submission_def)
  have i: "init_history (fresh_session\<lparr>history := Some ten_entries\<rparr>) =
             fresh_session\<lparr>history := Some ten_entries\<rparr>"
    by (simp add: init_history_def)
  from scaling_error_aborts_only_this_request
         [OF c t, of "fresh_session\<lparr>history := Some ten_entries\<rparr>", THEN conjunct1]
  have "script failing_scaler example_submission PredictPressed
     (fresh_session\<lparr>history := Some ten_entries\<rparr>) =
     (fresh_session\<lparr>history := Some ten_entries\<rparr>,
      [StError (scaling_error_prefix @ ''X has 6 features, expected 5'')], Stopped)"
    by (simp add: w i)
  with c t show ?thesis by (intro conjI)
qed

subsection \<open>C8: a model without predict-proba\<close>

text \<open>
  C8. When \<^verbatim>\<open>model.predict_proba\<close> raises \<open>AttributeError\<close>, the run still finishes with
  the prediction box shown, shows neither the confidence text nor the progress bar, and
  the entry saved last in the history has confidence 1.
\<close>

theorem missing_predict_proba_records_one:
  assumes "confidence_map (confidence inp) = Some cv"
    and "transform env (input_array inp cv) = Inr scaled"
    and "predict env scaled = Inr p"
    and "predict_proba env scaled = Inl e"
    and "kind e = AttributeError"
  shows "script env inp PredictPressed st =
           ((init_history st)
              \<lparr>history :=
                 Some (fst (save_to_history (history_list st)
                              \<lparr>h_result = fire_types_get p, h_confidence = 1\<rparr>))\<rparr>,
            show_warnings (warnings inp) @
              [DebugRawPrediction p, DebugNoPredictProba, PredictionBox (fire_types_get p)],
            Finished) \<and>
         last (history_list (fst (script env inp PredictPressed st))) =
           \<lparr>h_result = fire_types_get p, h_confidence = 1\<rparr> \<and>
         (\<forall>c. ConfidenceText c \<notin> set (fst (snd (script env inp PredictPressed st))) \<and>
              StProgress c \<notin> set (fst (snd (script env inp PredictPressed st))))"
proof -
  have pb: "proba_block env scaled = ([DebugNoPredictProba], Inr None)"
    using assms(4,5) by (simp add: proba_block_def)
  have run: "script env inp PredictPressed st =
           ((init_history st)
              \<lparr>history :=
                 Some (fst (save_to_history (history_list st)
                              \<lparr>h_result = fire_types_get p, h_confidence = 1\<rparr>))\<rparr>,
            show_warnings (warnings inp) @
              [DebugRawPrediction p, DebugNoPredictProba, PredictionBox (fire_types_get p)],
            Finished)"
  proof -
    have sp: "show_prediction env (fire_types_get p) None =
                ([PredictionBox (fire_types_get p)], None)"
      by (simp add: show_prediction_def)
    show ?thesis
      using script_predict_success[OF assms(1-3) pb sp, of st]
      by (simp add: new_entry_def)
  qed
  have lst: "last (history_list (fst (script env inp PredictPressed st))) =
           \<lparr>h_result = fire_types_get p, h_confidence = 1\<rparr>"
    by (simp add: run history_list_update save_to_history_last)
  have none: "\<forall>c. ConfidenceText c \<notin> set (fst (snd (script env inp PredictPressed st))) \<and>
              StProgress c \<notin> set (fst (snd (script env inp PredictPressed st)))"
    using no_conf_in_show_warnings[of _ "warnings inp"] by (simp add: run)
  from run lst none show ?thesis by (intro conjI)
qed

theorem missing_predict_proba_records_one_witness:
  "kind (Exn AttributeError ''no attribute predict_proba'') = AttributeError \<and>
   predict_proba no_proba_artifacts [320, 300, 20, 1, 1, 1] =
     Inl (Exn AttributeError ''no attribute predict_proba'') \<and>
   script no_proba_artifacts example_submission PredictPressed fresh_session =
     (fresh_session\<lparr>history := Some [\<lparr>h_result = vegetation_fire, h_confidence = 1\<rparr>]\<rparr>,
      [DebugRawPrediction 0, DebugNoPredictProba, PredictionBox vegetation_fire],
      Finished)"
proof -
  let ?v = "[320, 300, 20, 1, 1, 1] :: real list"
  let ?e = "Exn AttributeError ''no attribute predict_proba''"
  have c: "confidence_map (confidence example_submission) = Some 1"
    by (simp add: confidence_map_def example_submission_def)
  have t: "transform no_proba_artifacts (input_array example_submission 1) = Inr ?v"
    by (simp add: no_proba_artifacts_def working_artifacts_def input_array_def
        example_submission_def)
  have p: "predict no_proba_artifacts ?v = Inr 0"
    by (simp add: no_proba_artifacts_def working_artifacts_def)
  have pp: "predict_proba no_proba_artifacts ?v = Inl ?e"
    by (simp add: no_proba_artifacts_def)
  have k: "kind ?e = AttributeError" by simp
  have w: "show_warnings (warnings example_submission) = []"
    by (simp add: show_warnings_def warnings_def example_submission_def)
  from missing_predict_proba_records_one[OF c t p pp k, of fresh_session, THEN conjunct1]
  have "script no_proba_artifacts example_submission PredictPressed fresh_session =
     (fresh_session\<lparr>history := Some [\<lparr>h_result = vegetation_fire, h_confidence = 1\<rparr>]\<rparr>,
      [DebugRawPrediction 0, DebugNoPredictProba, PredictionBox vegetation_fire],
      Finished)"
    by (simp add: w init_history_def fresh_session_def history_list_def save_to_history_eq
        fire_types_get_def fire_types_def)
  with k pp show ?thesis by (intro conjI)
qed

subsection \<open>C9: a top probability of zero\<close>

text \<open>
  C9. When \<^verbatim>\<open>model.predict_proba\<close> returns a row whose maximum is exactly 0,
  \<^verbatim>\<open>max_proba\<close> is 0, which is false in \<^verbatim>\<open>if max_proba\<close>: the run shows neither the
  confidence text nor the progress bar, and the entry saved last in the history has
  confidence 1, not 0.
\<close>

theorem zero_probability_records_one:
  assumes "confidence_map (confidence inp) = Some cv"
    and "transform env (input_array inp cv) = Inr scaled"
    and "predict env scaled = Inr p"
    and "predict_proba env scaled = Inr prediction_proba"
    and "prediction_proba \<noteq> []"
    and "Max (set prediction_proba) = 0"
  shows "proba_block env scaled = ([DebugProbabilities prediction_proba], Inr (Some 0)) \<and>
         script env inp PredictPressed st =
           ((init_history st)
              \<lparr>history :=
                 Some (fst (save_to_history (history_list st)
                              \<lparr>h_result = fire_types_get p, h_confidence = 1\<rparr>))\<rparr>,
            show_warnings (warnings inp) @
              [DebugRawPrediction p, DebugProbabilities prediction_proba,
               PredictionBox (fire_types_get p)],
            Finished) \<and>
         last (history_list (fst (script env inp PredictPressed st))) =
           \<lparr>h_result = fire_types_get p, h_confidence = 1\<rparr> \<and>
         h_confidence (last (history_list (fst (script env inp PredictPressed st)))) \<noteq> 0 \<and>
         (\<forall>c. ConfidenceText c \<notin> set (fst (snd (script env inp PredictPressed st))) \<and>
              StProgress c \<notin> set (fst (snd (script env inp PredictPressed st))))"
proof -
  have pb: "proba_block env scaled = ([DebugProbabilities prediction_proba], Inr (Some 0))"
    using assms(4,6) py_max_eq_Max[OF assms(5)] by (simp add: proba_block_def)
  have run: "script env inp PredictPressed st =
           ((init_history st)
              \<lparr>history :=
                 Some (fst (save_to_history (history_list st)
                              \<lparr>h_result = fire_types_get p, h_confidence = 1\<rparr>))\<rparr>,
            show_warnings (warnings inp) @
              [DebugRawPrediction p, DebugProbabilities prediction_proba,
               PredictionBox (fire_types_get p)],
            Finished)"
  proof -
    have sp: "show_prediction env (fire_types_get p) (Some 0) =
                ([PredictionBox (fire_types_get p)], None)"
      by (simp add: show_prediction_def)
    show ?thesis
      using script_predict_success[OF assms(1-3) pb sp, of st]
      by (simp add: new_entry_def)
  qed
  have lst: "last (history_list (fst (script env inp PredictPressed st))) =
           \<lparr>h_result = fire_types_get p, h_confidence = 1\<rparr>"
    by (simp add: run history_list_update save_to_history_last)
  then have nz: "h_confidence (last (history_list (fst (script env inp PredictPressed st)))) \<noteq> 0"
    by simp
  have none: "\<forall>c. ConfidenceText c \<notin> set (fst (snd (script env inp PredictPressed st))) \<and>
              StProgress c \<notin> set (fst (snd (script env inp PredictPressed st)))"
    using no_conf_in_show_warnings[of _ "warnings inp"] by (simp add: run)
  from pb run lst nz none show ?thesis by (intro conjI)
qed

theorem zero_probability_records_one_witness:
  "predict_proba zero_proba_artifacts [320, 300, 20, 1, 1, 1] = Inr [0, 0, 0, 0] \<and>
   [0, 0, 0, 0 :: real] \<noteq> [] \<and> Max (set [0, 0, 0, 0 :: real]) = 0 \<and>
   script zero_proba_artifacts example_submission PredictPressed fresh_session =
     (fresh_session\<lparr>history := Some [\<lparr>h_result = vegetation_fire, h_confidence = 1\<rparr>]\<rparr>,
      [DebugRawPrediction 0, DebugProbabilities [0, 0, 0, 0], PredictionBox vegetation_fire],
      Finished)"
proof -
  let ?v = "[320, 300, 20, 1, 1, 1] :: real list"
  have c: "confidence_map (confidence example_submission) = Some 1"
    by (simp add: confidence_map_def example_submission_def)
  have t: "transform zero_proba_artifacts (input_array example_submission 1) = Inr ?v"
    by (simp add: zero_proba_artifacts_def working_artifacts_def input_array_def
        example_submission_def)
  have p: "predict zero_proba_artifacts ?v = Inr 0"
    by (simp add: zero_proba_artifacts_def working_artifacts_def)
  have pp: "predict_proba zero_proba_artifacts ?v = Inr [0, 0, 0, 0]"
    by (simp add: zero_proba_artifacts_def)
  have ne: "[0, 0, 0, 0 :: real] \<noteq> []" by simp
  have mx: "Max (set [0, 0, 0, 0 :: real]) = 0" by simp
  have w: "show_warnings (warnings example_submission) = []"
    by (simp add: show_warnings_def warnings_def example_submission_def)
  from zero_probability_records_one
         [OF c t p pp ne mx, of fresh_session, THEN conjunct2, THEN conjunct1]
  have "script zero_proba_artifacts example_submission PredictPressed fresh_session =
     (fresh_session\<lparr>history := Some [\<lparr>h_result = vegetation_fire, h_confidence = 1\<rparr>]\<rparr>,
      [DebugRawPrediction 0, DebugProbabilities [0, 0, 0, 0], PredictionBox vegetation_fire],
      Finished)"
    by (simp add: w init_history_def fresh_session_def history_list_def save_to_history_eq
        fire_types_get_def fire_types_def)
  with pp ne mx show ?thesis by (intro conjI)
qed

subsection \<open>C10: reset\<close>

text \<open>
  C10. The assignments of the reset branch set the six keys brightness, bright_t31, frp,
  scan, track and confidence of the session state to the defaults of the widgets (300,
  290, 15, 1, 1, low) and nothing else: the history key and every other part of the
  session state are as before. An interaction with the reset button ends in exactly that
  state, with the history list unchanged.
\<close>

theorem reset_changes_only_the_six_inputs:
  "(reset st =
      st\<lparr>ss_brightness := Some (brightness widget_defaults),
         ss_bright_t31 := Some (bright_t31 widget_defaults),
         ss_frp := Some (frp widget_defaults),
         ss_scan := Some (scan widget_defaults),
         ss_track := Some (track widget_defaults),
         ss_confidence := Some (confidence widget_defaults)\<rparr> \<and>
    ss_brightness (reset st) = Some 300 \<and> ss_bright_t31 (reset st) = Some 290 \<and>
    ss_frp (reset st) = Some 15 \<and> ss_scan (reset st) = Some 1 \<and>
    ss_track (reset st) = Some 1 \<and> ss_confidence (reset st) = Some ''low'') \<and>
   (history (reset st) = history st \<and>
    session_state.more (reset st) = session_state.more st) \<and>
   script env inp ResetPressed st = (reset (init_history st), [], Finished) \<and>
   history_list (fst (script env inp ResetPressed st)) = history_list st"
  by (simp add: reset_def widget_defaults_def script_ResetPressed history_list_def
      init_history_def split: option.splits)

theorem reset_changes_only_the_six_inputs_witness:
  "reset (fresh_session\<lparr>ss_frp := Some 77, history := Some ten_entries\<rparr>) =
     \<lparr>ss_brightness = Some 300, ss_bright_t31 = Some 290, ss_frp = Some 15,
      ss_scan = Some 1, ss_track = Some 1, ss_confidence = Some ''low'',
      history = Some ten_entries\<rparr> \<and>
   history_list
     (fst (script working_artifacts example_submission ResetPressed
             (fresh_session\<lparr>ss_frp := Some 77, history := Some ten_entries\<rparr>))) =
   ten_entries"
proof -
  note inst = reset_changes_only_the_six_inputs
          [of "fresh_session\<lparr>ss_frp := Some 77, history := Some ten_entries\<rparr>"
              working_artifacts example_submission]
  have a: "reset (fresh_session\<lparr>ss_frp := Some 77, history := Some ten_entries\<rparr>) =
     \<lparr>ss_brightness = Some 300, ss_bright_t31 = Some 290, ss_frp = Some 15,
      ss_scan = Some 1, ss_track = Some 1, ss_confidence = Some ''low'',
      history = Some ten_entries\<rparr>"
    using inst[THEN conjunct1, THEN conjunct1]
    by (simp add: fresh_session_def widget_defaults_def)
  have b: "history_list
     (fst (script working_artifacts example_submission ResetPressed
             (fresh_session\<lparr>ss_frp := Some 77, history := Some ten_entries\<rparr>))) =
   ten_entries"
    using inst[THEN conjunct2, THEN conjunct2, THEN conjunct2]
    by (simp add: history_list_def)
  from a b show ?thesis by (intro conjI)
qed

end
